theory Spec2Isabelle
  imports Complex_Main
begin

section \<open>Python values and text\<close>

text \<open>
  Conventions of the embedding.
  \<^item> A Python \<open>str\<close> is a \<open>string\<close> holding its UTF-8 bytes; whitespace, digits and
    letter case are the ASCII ones (a no-break space is not trimmed, \<open>upper\<close> and \<open>lower\<close>
    leave every byte above 127 alone).
  \<^item> A Python \<open>float\<close> and a \<open>Decimal\<close> are finite \<open>real\<close>s: \<open>nan\<close> and \<open>inf\<close> are not
    values of the model, and the literals that denote them (for \<open>float\<close> and for
    \<open>Decimal\<close>) are treated as unparsable; a float neither overflows nor underflows.
    Binary rounding of floats and the 28-digit rounding of Decimal sums are not modelled.
  \<^item> A dictionary is a map from keys to \<open>pyval\<close>; a missing key is \<open>None\<close> of the map, a
    key bound to Python's \<open>None\<close> is \<open>Some PNone\<close>.
  \<^item> A raised exception is the \<open>Inl\<close> of a sum.
  \<^item> The human-readable \<open>message\<close> of an issue (an f-string over the same numbers that
    the structured fields carry) is not modelled.
\<close>

datatype pyval = PNone | PNum real | PStr string

datatype exn = InvalidOperation | TypeError | ValueError | AttributeError | IndexError

type_synonym pydict = "string \<rightharpoonup> pyval"

definition is_space :: "char \<Rightarrow> bool" where
  "is_space c = (let n = (of_char c :: nat) in (9 \<le> n \<and> n \<le> 13) \<or> (28 \<le> n \<and> n \<le> 32))"

definition is_digit :: "char \<Rightarrow> bool" where
  "is_digit c = (let n = (of_char c :: nat) in 48 \<le> n \<and> n \<le> 57)"

definition strip :: "string \<Rightarrow> string" where
  "strip s = rev (dropWhile is_space (rev (dropWhile is_space s)))"

text \<open>\<open>s.replace(old, new)\<close> for a non-empty \<open>old\<close>: leftmost, non-overlapping.\<close>

function str_replace :: "string \<Rightarrow> string \<Rightarrow> string \<Rightarrow> string" where
  "str_replace old new [] = []"
| "str_replace old new (c # cs) =
     (if old \<noteq> [] \<and> take (length old) (c # cs) = old
      then new @ str_replace old new (drop (length old) (c # cs))
      else c # str_replace old new cs)"
  by pat_completeness auto
termination
  by (relation "measure (\<lambda>(old, new, s). length s)") auto

definition nat_of_digits :: "string \<Rightarrow> nat" where
  "nat_of_digits ds = foldl (\<lambda>n c. 10 * n + (of_char c - 48)) 0 ds"

definition scale10 :: "real \<Rightarrow> int \<Rightarrow> real" where
  "scale10 x e = (if 0 \<le> e then x * 10 ^ nat e else x / 10 ^ nat (- e))"

definition split_sign :: "string \<Rightarrow> bool \<times> string" where
  "split_sign s =
     (case s of
        [] \<Rightarrow> (False, [])
      | c # r \<Rightarrow> if c = CHR ''-'' then (True, r) else if c = CHR ''+'' then (False, r) else (False, s))"

text \<open>The exponent part \<open>(E[-+]?\d+)?\<close> followed by the end of the text.\<close>

definition parse_exp :: "string \<Rightarrow> int option" where
  "parse_exp s =
     (case s of
        [] \<Rightarrow> Some 0
      | c # r \<Rightarrow>
          if c = CHR ''e'' \<or> c = CHR ''E'' then
            (let (neg, ds) = split_sign r in
             if ds \<noteq> [] \<and> list_all is_digit ds
             then Some (if neg then - int (nat_of_digits ds) else int (nat_of_digits ds))
             else None)
          else None)"

text \<open>
  \<open>Decimal(text)\<close>: the constructor strips the text, drops every underscore and matches
  sign, integer part, fraction and exponent up to the end; \<open>None\<close> is
  \<open>decimal.InvalidOperation\<close>.
\<close>

definition decimal_of_string :: "string \<Rightarrow> real option" where
  "decimal_of_string s0 =
     (let s = filter (\<lambda>c. c \<noteq> CHR ''_'') (strip s0);
          (neg, s1) = split_sign s;
          ip = takeWhile is_digit s1;
          s2 = dropWhile is_digit s1;
          (fp, s3) = (case s2 of
                        [] \<Rightarrow> ([], [])
                      | c # r \<Rightarrow> if c = CHR ''.'' then (takeWhile is_digit r, dropWhile is_digit r)
                                 else ([], s2))
      in if ip = [] \<and> fp = [] then None
         else (case parse_exp s3 of
                 None \<Rightarrow> None
               | Some e \<Rightarrow>
                   (let m = scale10 (real (nat_of_digits (ip @ fp))) (e - int (length fp))
                    in Some (if neg then - m else m))))"

text \<open>
  \<open>d.quantize(Decimal('0.01'), rounding=ROUND_HALF_UP)\<close>: two places, ties away from
  zero; the operation signals \<open>InvalidOperation\<close> when the result needs more than the
  context's 28 digits.
\<close>

definition quantize :: "real \<Rightarrow> exn + real" where
  "quantize r =
     (let n = \<lfloor>\<bar>r\<bar> * 100 + 1 / 2\<rfloor>
      in if 10 ^ 28 \<le> n then Inl InvalidOperation
         else Inr ((if r < 0 then - real_of_int n else real_of_int n) / 100))"


text \<open>\<open>str(n)\<close> for a non-negative integer.\<close>

fun str_nat :: "nat \<Rightarrow> string" where
  "str_nat n = (if n < 10 then [''0123456789'' ! n] else str_nat (n div 10) @ [''0123456789'' ! (n mod 10)])"

declare str_nat.simps [simp del]

definition bind_exn :: "exn + 'a \<Rightarrow> ('a \<Rightarrow> exn + 'b) \<Rightarrow> exn + 'b" where
  "bind_exn m f = (case m of Inl e \<Rightarrow> Inl e | Inr x \<Rightarrow> f x)"

definition get_default :: "pydict \<Rightarrow> string \<Rightarrow> pyval \<Rightarrow> pyval" where
  "get_default d k v = (case d k of None \<Rightarrow> v | Some x \<Rightarrow> x)"

definition get :: "pydict \<Rightarrow> string \<Rightarrow> pyval" where
  "get d k = get_default d k PNone"

section \<open>Validation models (validation\_models.py)\<close>

datatype ValidationSeverity = ERROR | WARNING | INFO

datatype ValidationErrorType =
    BALANCE_MISMATCH | DATE_OUT_OF_ORDER | DATE_OUT_OF_RANGE | MISSING_BALANCE
  | DUPLICATE_TRANSACTION | INCOME_IMPLAUSIBLE | CROSS_DOC_INCONSISTENCY | CALCULATION_ERROR

record ValidationError =
  error_type :: ValidationErrorType
  severity :: ValidationSeverity
  field :: "string option"
  expected :: "real option"
  actual :: "real option"
  error_context :: "(string \<times> pyval) list option"

record ValidationWarning =
  warning_type :: string
  warning_field :: "string option"
  recommendation :: "string option"

record ValidationResult =
  validator_name :: string
  status :: string
  passed :: bool
  errors :: "ValidationError list"
  warnings :: "ValidationWarning list"
  metadata :: "(string \<times> pyval) list"

definition has_errors :: "ValidationResult \<Rightarrow> bool" where
  "has_errors r = (length (errors r) > 0)"

definition has_warnings :: "ValidationResult \<Rightarrow> bool" where
  "has_warnings r = (length (warnings r) > 0)"

definition error_count :: "ValidationResult \<Rightarrow> nat" where
  "error_count r = length (errors r)"

definition warning_count :: "ValidationResult \<Rightarrow> nat" where
  "warning_count r = length (warnings r)"

text \<open>
  \<open>add_error\<close> appends, clears \<open>passed\<close> and then sets the status to failed only when
  the status is still passed; \<open>add_warning\<close> appends and sets the status to warnings only
  when it is still passed.
\<close>

definition add_error :: "ValidationError \<Rightarrow> ValidationResult \<Rightarrow> ValidationResult" where
  "add_error e r =
     (let r1 = r\<lparr>errors := errors r @ [e], passed := False\<rparr>
      in if status r1 = ''passed'' then r1\<lparr>status := ''failed''\<rparr> else r1)"

definition add_warning :: "ValidationWarning \<Rightarrow> ValidationResult \<Rightarrow> ValidationResult" where
  "add_warning w r =
     (let r1 = r\<lparr>warnings := warnings r @ [w]\<rparr>
      in if status r1 = ''passed'' then r1\<lparr>status := ''warnings''\<rparr> else r1)"

text \<open>The result every validator starts from: \<open>status="passed", passed=True\<close>, no issues.\<close>

definition new_result :: "string \<Rightarrow> (string \<times> pyval) list \<Rightarrow> ValidationResult" where
  "new_result name md =
     \<lparr>validator_name = name, status = ''passed'', passed = True, errors = [], warnings = [],
      metadata = md\<rparr>"

text \<open>A call on a result: one \<open>add_error\<close> or one \<open>add_warning\<close>.\<close>

datatype call = AddError ValidationError | AddWarning ValidationWarning

fun apply_call :: "ValidationResult \<Rightarrow> call \<Rightarrow> ValidationResult" where
  "apply_call r (AddError e) = add_error e r"
| "apply_call r (AddWarning w) = add_warning w r"

definition is_error_call :: "call \<Rightarrow> bool" where
  "is_error_call c = (case c of AddError e \<Rightarrow> True | AddWarning w \<Rightarrow> False)"

definition run_calls :: "ValidationResult \<Rightarrow> call list \<Rightarrow> ValidationResult" where
  "run_calls r cs = foldl apply_call r cs"

record AggregatedValidationResult =
  statement_id :: string
  overall_status :: string
  validators_run :: "string list"
  results :: "(string \<times> ValidationResult) list"
  total_errors :: nat
  total_warnings :: nat

text \<open>\<open>from_results\<close>; the dictionary of results is an association list in insertion order.\<close>

definition from_results :: "string \<Rightarrow> (string \<times> ValidationResult) list \<Rightarrow> AggregatedValidationResult" where
  "from_results sid rs =
     (let te = sum_list (map (\<lambda>(k, r). error_count r) rs);
          tw = sum_list (map (\<lambda>(k, r). warning_count r) rs);
          st = (if te > 0 then ''failed'' else if tw > 0 then ''warnings'' else ''passed'')
      in \<lparr>statement_id = sid, overall_status = st, validators_run = map fst rs, results = rs,
          total_errors = te, total_warnings = tw\<rparr>)"

section \<open>Balance validator (balance\_validator.py)\<close>

text \<open>
  The statement dictionary: its scalar entries, and the list bound to \<open>transactions\<close>
  (the empty list when the key is absent, as \<open>get('transactions', [])\<close> gives).
\<close>

record statement_data =
  entries :: pydict
  transactions :: "pydict list"

text \<open>
  \<open>_to_decimal\<close>. Its handler catches \<open>ValueError\<close> and \<open>TypeError\<close> only; what the
  Decimal constructor and \<open>quantize\<close> raise is \<open>InvalidOperation\<close>, which leaves the
  function. The text removed besides the comma and the dollar sign is the seven-byte
  literal of the source file.
\<close>

definition currency_literal :: string where
  "currency_literal = [CHR 0xC3, CHR 0xA2, CHR 0xE2, CHR 0x80, CHR 0x9A, CHR 0xC2, CHR 0xB9]"

definition to_decimal :: "pyval \<Rightarrow> exn + real option" where
  "to_decimal v =
     (case v of
        PNone \<Rightarrow> Inr None
      | PNum r \<Rightarrow> bind_exn (quantize r) (\<lambda>q. Inr (Some q))
      | PStr s \<Rightarrow>
          (case decimal_of_string
                  (strip (str_replace ''$'' '''' (str_replace currency_literal ''''
                     (str_replace '','' '''' s)))) of
             None \<Rightarrow> Inl InvalidOperation
           | Some r \<Rightarrow> bind_exn (quantize r) (\<lambda>q. Inr (Some q))))"

text \<open>Arithmetic and comparison on a value that may be Python's \<open>None\<close>: \<open>TypeError\<close>.\<close>

definition need :: "real option \<Rightarrow> exn + real" where
  "need x = (case x of None \<Rightarrow> Inl TypeError | Some r \<Rightarrow> Inr r)"

definition mk_error ::
  "ValidationErrorType \<Rightarrow> ValidationSeverity \<Rightarrow> string option \<Rightarrow> real option \<Rightarrow> real option
     \<Rightarrow> (string \<times> pyval) list option \<Rightarrow> ValidationError" where
  "mk_error t s f e a c =
     \<lparr>error_type = t, severity = s, field = f, expected = e, actual = a, error_context = c\<rparr>"

definition mk_warning :: "string \<Rightarrow> string option \<Rightarrow> string option \<Rightarrow> ValidationWarning" where
  "mk_warning t f r = \<lparr>warning_type = t, warning_field = f, recommendation = r\<rparr>"

text \<open>The body of the \<open>try\<close> of \<open>_validate_opening_closing\<close>.\<close>

definition opening_closing_body :: "real \<Rightarrow> statement_data \<Rightarrow> ValidationResult \<Rightarrow> exn + ValidationResult" where
  "opening_closing_body tol sd result =
     bind_exn (to_decimal (get (entries sd) ''opening_balance'')) (\<lambda>opening.
     bind_exn (to_decimal (get (entries sd) ''closing_balance'')) (\<lambda>closing.
     bind_exn (to_decimal (get_default (entries sd) ''total_credits'' (PNum 0))) (\<lambda>total_credits.
     bind_exn (to_decimal (get_default (entries sd) ''total_debits'' (PNum 0))) (\<lambda>total_debits.
       (case (opening, closing) of
          (Some ob, Some cb) \<Rightarrow>
            bind_exn (need total_credits) (\<lambda>tc.
            bind_exn (need total_debits) (\<lambda>td.
              (let expected_closing = ob + tc - td;
                   difference = \<bar>cb - expected_closing\<bar>
               in if difference > tol then
                    Inr (add_error (mk_error BALANCE_MISMATCH ERROR (Some ''closing_balance'')
                           (Some expected_closing) (Some cb)
                           (Some [(''opening_balance'', PNum ob), (''total_credits'', PNum tc),
                                  (''total_debits'', PNum td)])) result)
                  else if difference > 0 then
                    Inr (add_warning (mk_warning ''minor_balance_difference''
                           (Some ''closing_balance'') (Some ''Verify rounding rules with bank''))
                           result)
                  else Inr result)))
        | _ \<Rightarrow>
            Inr (add_error (mk_error MISSING_BALANCE ERROR
                   (Some ''opening_balance/closing_balance'') None None None) result))))))"

definition validate_opening_closing :: "real \<Rightarrow> statement_data \<Rightarrow> ValidationResult \<Rightarrow> ValidationResult" where
  "validate_opening_closing tol sd result =
     (case opening_closing_body tol sd result of
        Inl e \<Rightarrow> add_error (mk_error CALCULATION_ERROR ERROR None None None None) result
      | Inr r \<Rightarrow> r)"

text \<open>\<open>transaction.get('description', '')[:50]\<close>: slicing anything but text raises.\<close>

definition description50 :: "pydict \<Rightarrow> exn + pyval" where
  "description50 t =
     (case get_default t ''description'' (PStr '''') of
        PStr s \<Rightarrow> Inr (PStr (take 50 s))
      | _ \<Rightarrow> Inl TypeError)"

text \<open>The expected balance of one row, lines 167 to 170 of the source.\<close>

definition expected_balance :: "real \<Rightarrow> real \<Rightarrow> real option \<Rightarrow> exn + real" where
  "expected_balance running_balance credit debit =
     (if credit > 0 then Inr (running_balance + credit)
      else bind_exn (need debit) (\<lambda>d. Inr (running_balance - d)))"

text \<open>
  The body of the \<open>try\<close> inside the loop of \<open>_validate_transaction_balances\<close>, on the
  running balance and the result; it gives both back.
\<close>

definition transaction_body ::
  "real \<Rightarrow> nat \<Rightarrow> pydict \<Rightarrow> real \<times> ValidationResult \<Rightarrow> exn + real \<times> ValidationResult" where
  "transaction_body tol idx t st =
     (let running_balance = fst st; result = snd st in
      bind_exn (to_decimal (get_default t ''debit'' (PNum 0))) (\<lambda>debit.
      bind_exn (to_decimal (get_default t ''credit'' (PNum 0))) (\<lambda>credit.
      bind_exn (to_decimal (get t ''balance'')) (\<lambda>stated_balance.
      bind_exn (need credit) (\<lambda>c.
      bind_exn (expected_balance running_balance c debit) (\<lambda>expected_bal.
        (case stated_balance of
           Some sb \<Rightarrow>
             if \<bar>sb - expected_bal\<bar> > tol then
               bind_exn (description50 t) (\<lambda>descr.
               bind_exn (need debit) (\<lambda>d.
                 Inr (running_balance,
                      add_error (mk_error BALANCE_MISMATCH ERROR
                        (Some (''transactions['' @ str_nat idx @ ''].balance''))
                        (Some expected_bal) (Some sb)
                        (Some [(''transaction_index'', PNum (real idx)),
                               (''transaction_date'', get t ''date''),
                               (''description'', descr),
                               (''debit'', PNum d), (''credit'', PNum c)])) result)))
             else Inr (sb, result)
         | None \<Rightarrow> Inr (expected_bal, result))))))))"

definition transaction_step :: "real \<Rightarrow> nat \<Rightarrow> pydict \<Rightarrow> real \<times> ValidationResult \<Rightarrow> real \<times> ValidationResult" where
  "transaction_step tol idx t st =
     (case transaction_body tol idx t st of
        Inl e \<Rightarrow> (fst st, add_error (mk_error CALCULATION_ERROR WARNING
                             (Some (''transactions['' @ str_nat idx @ '']'')) None None None) (snd st))
      | Inr st' \<Rightarrow> st')"

fun transaction_loop :: "real \<Rightarrow> nat \<Rightarrow> pydict list \<Rightarrow> real \<times> ValidationResult \<Rightarrow> real \<times> ValidationResult" where
  "transaction_loop tol idx [] st = st"
| "transaction_loop tol idx (t # ts) st = transaction_loop tol (Suc idx) ts (transaction_step tol idx t st)"

definition validate_transaction_balances :: "real \<Rightarrow> statement_data \<Rightarrow> ValidationResult \<Rightarrow> exn + ValidationResult" where
  "validate_transaction_balances tol sd result =
     (if transactions sd = [] then
        Inr (add_warning (mk_warning ''no_transactions'' None
               (Some ''Verify OCR extracted transaction table correctly'')) result)
      else
        bind_exn (to_decimal (get (entries sd) ''opening_balance'')) (\<lambda>opening_balance.
          (case opening_balance of
             None \<Rightarrow> Inr result
           | Some ob \<Rightarrow> Inr (snd (transaction_loop tol 0 (transactions sd) (ob, result))))))"

text \<open>\<open>sum(self._to_decimal(t.get(key, 0)) for t in transactions)\<close>, from the integer 0.\<close>

fun sum_decimals :: "string \<Rightarrow> pydict list \<Rightarrow> real \<Rightarrow> exn + real" where
  "sum_decimals key [] acc = Inr acc"
| "sum_decimals key (t # ts) acc =
     bind_exn (to_decimal (get_default t key (PNum 0))) (\<lambda>v.
     bind_exn (need v) (\<lambda>x. sum_decimals key ts (acc + x)))"

definition check_total :: "real \<Rightarrow> string \<Rightarrow> real option \<Rightarrow> real \<Rightarrow> ValidationResult \<Rightarrow> ValidationResult" where
  "check_total tol name stated actual_sum result =
     (case stated of
        None \<Rightarrow> result
      | Some s \<Rightarrow>
          if \<bar>s - actual_sum\<bar> > tol
          then add_error (mk_error CALCULATION_ERROR ERROR (Some name) (Some actual_sum) (Some s) None) result
          else result)"

definition validate_totals :: "real \<Rightarrow> statement_data \<Rightarrow> ValidationResult \<Rightarrow> exn + ValidationResult" where
  "validate_totals tol sd result =
     (if transactions sd = [] then Inr result
      else
        bind_exn (to_decimal (get (entries sd) ''total_credits'')) (\<lambda>stated_credits.
        bind_exn (to_decimal (get (entries sd) ''total_debits'')) (\<lambda>stated_debits.
        bind_exn (sum_decimals ''credit'' (transactions sd) 0) (\<lambda>actual_credits.
        bind_exn (sum_decimals ''debit'' (transactions sd) 0) (\<lambda>actual_debits.
          Inr (check_total tol ''total_debits'' stated_debits actual_debits
                 (check_total tol ''total_credits'' stated_credits actual_credits result)))))))"

text \<open>\<open>validate_statement\<close> of the balance validator, for the tolerance \<open>tol\<close>.\<close>

definition validate_statement :: "real \<Rightarrow> statement_data \<Rightarrow> exn + ValidationResult" where
  "validate_statement tol sd =
     (let result = new_result ''balance_validator'' [(''tolerance'', PNum tol)];
          r1 = validate_opening_closing tol sd result
      in bind_exn (validate_transaction_balances tol sd r1) (\<lambda>r2. validate_totals tol sd r2))"

text \<open>Rows of a statement as the extractor emits them: debit, credit and stated balance.\<close>

definition row :: "real \<Rightarrow> real \<Rightarrow> real \<Rightarrow> pydict" where
  "row d c b = [''debit'' \<mapsto> PNum d, ''credit'' \<mapsto> PNum c, ''balance'' \<mapsto> PNum b]"

text \<open>
  Three rows from an opening balance of 10000: a credit of 5000 stated as 15000, a debit
  of 2000 stated as 9000 (the bad row: 13000 is due), and a debit of 1000 stated as 8000,
  which is what follows from the stated 9000.
\<close>

definition one_bad_row :: statement_data where
  "one_bad_row =
     \<lparr>entries = [''opening_balance'' \<mapsto> PNum 10000],
      transactions = [row 0 5000 15000, row 2000 0 9000, row 1000 0 8000]\<rparr>"

text \<open>A statement whose only row carries the text \<open>abc\<close> as its credit.\<close>

definition text_credit :: statement_data where
  "text_credit =
     \<lparr>entries = [''opening_balance'' \<mapsto> PNum 10000, ''closing_balance'' \<mapsto> PNum 10000,
                 ''total_credits'' \<mapsto> PNum 0, ''total_debits'' \<mapsto> PNum 0],
      transactions = [[''debit'' \<mapsto> PNum 0, ''credit'' \<mapsto> PStr ''abc'', ''balance'' \<mapsto> PNum 10000]]\<rparr>"

section \<open>Cells and cell parsers (excel\_to\_json\_converter.py)\<close>

text \<open>
  A cell of the data frame: empty (\<open>NaN\<close>, for which \<open>pd.isna\<close> holds), a Python
  integer, a float, a text, or a timestamp (of which only the calendar date is kept).

  Two library functions are parameters of the model: \<open>to_datetime\<close> is
  \<open>pd.to_datetime(text, dayfirst=True)\<close> followed by reading year, month and day
  (\<open>None\<close> when either raises), and \<open>float_str\<close> is \<open>str\<close> on a float.
\<close>

datatype cell = CNull | CInt int | CFloat real | CStr string | CDate nat nat nat

record pylib =
  to_datetime :: "string \<Rightarrow> (nat \<times> nat \<times> nat) option"
  float_str :: "real \<Rightarrow> string"

definition isna :: "cell \<Rightarrow> bool" where
  "isna c = (c = CNull)"

definition str_int :: "int \<Rightarrow> string" where
  "str_int i = (if i < 0 then ''-'' @ str_nat (nat (- i)) else str_nat (nat i))"

definition pad :: "nat \<Rightarrow> string \<Rightarrow> string" where
  "pad n s = replicate (n - length s) (CHR ''0'') @ s"

text \<open>
  \<open>strftime('%Y-%m-%d')\<close>, the year on four digits (a C library that prints a year
  below 1000 without leading zeros differs there).
\<close>

definition iso_date :: "nat \<Rightarrow> nat \<Rightarrow> nat \<Rightarrow> string" where
  "iso_date y m d = pad 4 (str_nat y) @ ''-'' @ pad 2 (str_nat m) @ ''-'' @ pad 2 (str_nat d)"

text \<open>\<open>str(value)\<close> of a cell; a timestamp prints with its midnight time.\<close>

definition cell_str :: "pylib \<Rightarrow> cell \<Rightarrow> string" where
  "cell_str L c =
     (case c of
        CNull \<Rightarrow> ''nan''
      | CInt i \<Rightarrow> str_int i
      | CFloat r \<Rightarrow> float_str L r
      | CStr s \<Rightarrow> s
      | CDate y m d \<Rightarrow> iso_date y m d @ '' 00:00:00'')"

definition lower_char :: "char \<Rightarrow> char" where
  "lower_char c =
     (case map_of (zip ''ABCDEFGHIJKLMNOPQRSTUVWXYZ'' ''abcdefghijklmnopqrstuvwxyz'') c of
        None \<Rightarrow> c | Some l \<Rightarrow> l)"

definition upper_char :: "char \<Rightarrow> char" where
  "upper_char c =
     (case map_of (zip ''abcdefghijklmnopqrstuvwxyz'' ''ABCDEFGHIJKLMNOPQRSTUVWXYZ'') c of
        None \<Rightarrow> c | Some u \<Rightarrow> u)"

definition lower :: "string \<Rightarrow> string" where
  "lower s = map lower_char s"

definition upper :: "string \<Rightarrow> string" where
  "upper s = map upper_char s"

text \<open>\<open>p in s\<close> on texts.\<close>

fun contains :: "string \<Rightarrow> string \<Rightarrow> bool" where
  "contains p [] = (p = [])"
| "contains p (c # cs) = (take (length p) (c # cs) = p \<or> contains p cs)"

definition any_in :: "string list \<Rightarrow> string \<Rightarrow> bool" where
  "any_in ps s = list_ex (\<lambda>p. contains p s) ps"

text \<open>The longest prefix of the form digit, then digits each with at most one underscore before it.\<close>

fun digitpart :: "string \<Rightarrow> string \<times> string" where
  "digitpart [] = ([], [])"
| "digitpart [c] = (if is_digit c then ([c], []) else ([], [c]))"
| "digitpart (c # u # r) =
     (if \<not> is_digit c then ([], c # u # r)
      else if is_digit u then (let (ds, rest) = digitpart (u # r) in (c # ds, rest))
      else if u = CHR ''_'' \<and> r \<noteq> [] \<and> is_digit (hd r) then (let (ds, rest) = digitpart r in (c # ds, rest))
      else ([c], u # r))"

definition float_exp :: "string \<Rightarrow> int option" where
  "float_exp s =
     (case s of
        [] \<Rightarrow> Some 0
      | c # r \<Rightarrow>
          if c = CHR ''e'' \<or> c = CHR ''E'' then
            (let (neg, r1) = split_sign r; (ds, rest) = digitpart r1 in
             if ds \<noteq> [] \<and> rest = []
             then Some (if neg then - int (nat_of_digits ds) else int (nat_of_digits ds))
             else None)
          else None)"

text \<open>
  \<open>float(text)\<close> on the decimal literals: surrounding whitespace, a sign, digits with an
  optional fraction (or a fraction alone) and an optional exponent. \<open>None\<close> is
  \<open>ValueError\<close>.
\<close>

definition float_of_string :: "string \<Rightarrow> real option" where
  "float_of_string s0 =
     (let (neg, s1) = split_sign (strip s0);
          (ip, r1) = digitpart s1;
          (fp, r2) = (case r1 of
                        [] \<Rightarrow> ([], [])
                      | c # r \<Rightarrow> if c = CHR ''.'' then digitpart r else ([], r1))
      in if ip = [] \<and> fp = [] then None
         else (case float_exp r2 of
                 None \<Rightarrow> None
               | Some e \<Rightarrow>
                   (let m = scale10 (real (nat_of_digits (ip @ fp))) (e - int (length fp))
                    in Some (if neg then - m else m))))"

definition rupee :: string where
  "rupee = [CHR 0xE2, CHR 0x82, CHR 0xB9]"

text \<open>
  The literals that \<open>float\<close> reads as \<open>inf\<close> or \<open>nan\<close>. They have no value in the model,
  where \<open>float_of_string\<close> gives \<open>None\<close> on them; statements about unparsable text
  exclude them.
\<close>

definition special_float :: "string \<Rightarrow> bool" where
  "special_float s0 =
     (let (neg, s) = split_sign (strip s0)
      in lower s = ''inf'' \<or> lower s = ''infinity'' \<or> lower s = ''nan'')"

text \<open>The text that \<open>_parse_amount\<close> hands to \<open>float\<close>.\<close>

definition clean_amount :: "pylib \<Rightarrow> cell \<Rightarrow> string" where
  "clean_amount L v =
     (let a = strip (str_replace ''INR'' '''' (str_replace ''Rs'' ''''
                (str_replace rupee '''' (str_replace '','' '''' (cell_str L v)))))
      in if CHR ''('' \<in> set a then str_replace '')'' '''' (str_replace ''('' ''-'' a) else a)"

text \<open>\<open>_parse_amount\<close>\<close>

definition parse_amount :: "pylib \<Rightarrow> cell \<Rightarrow> real" where
  "parse_amount L v =
     (case v of
        CNull \<Rightarrow> 0
      | CInt i \<Rightarrow> real_of_int i
      | CFloat r \<Rightarrow> r
      | _ \<Rightarrow>
          (if clean_amount L v = [] then 0
           else (case float_of_string (clean_amount L v) of None \<Rightarrow> 0 | Some r \<Rightarrow> r)))"

text \<open>
  A cell that is not a number for \<open>_parse_amount\<close>: neither empty nor numeric, and
  \<open>float\<close> raises on its cleaned text.
\<close>

definition non_numeric :: "pylib \<Rightarrow> cell \<Rightarrow> bool" where
  "non_numeric L v =
     (case v of
        CNull \<Rightarrow> False
      | CInt i \<Rightarrow> False
      | CFloat r \<Rightarrow> False
      | _ \<Rightarrow> float_of_string (clean_amount L v) = None \<and> \<not> special_float (clean_amount L v))"

subsection \<open>Dates\<close>

definition digit_val :: "char \<Rightarrow> nat" where
  "digit_val c = of_char c - 48"

definition between :: "nat \<Rightarrow> nat \<Rightarrow> char \<Rightarrow> bool" where
  "between lo hi c = (let n = (of_char c :: nat) in 48 + lo \<le> n \<and> n \<le> 48 + hi)"

definition leap_year :: "nat \<Rightarrow> bool" where
  "leap_year y = (if y mod 400 = 0 then True else if y mod 100 = 0 then False else y mod 4 = 0)"

definition days_in_month :: "nat \<Rightarrow> nat \<Rightarrow> nat" where
  "days_in_month y m =
     (if m = 2 then (if leap_year y then 29 else 28)
      else if m = 4 \<or> m = 6 \<or> m = 9 \<or> m = 11 then 30 else 31)"

text \<open>\<open>datetime(y, m, d)\<close> is accepted.\<close>

definition valid_date :: "nat \<Rightarrow> nat \<Rightarrow> nat \<Rightarrow> bool" where
  "valid_date y m d = (1 \<le> y \<and> y \<le> 9999 \<and> 1 \<le> m \<and> m \<le> 12 \<and> 1 \<le> d \<and> d \<le> days_in_month y m)"

text \<open>
  \<open>datetime.strptime\<close> turns a format into a regular expression, takes its first match
  from the start of the text, and rejects the text when the match does not reach its end
  or the date does not exist. A directive gives its matches in the order the expression
  tries them.
\<close>

datatype directive = Day | Month | Year | MonthAbbr | MonthName | Lit char

definition two :: "(char \<Rightarrow> bool) \<Rightarrow> (char \<Rightarrow> bool) \<Rightarrow> string \<Rightarrow> (nat \<times> string) list" where
  "two p q s =
     (case s of
        a # b # r \<Rightarrow> if p a \<and> q b then [(10 * digit_val a + digit_val b, r)] else []
      | _ \<Rightarrow> [])"

definition one :: "(char \<Rightarrow> bool) \<Rightarrow> string \<Rightarrow> (nat \<times> string) list" where
  "one p s = (case s of a # r \<Rightarrow> if p a then [(digit_val a, r)] else [] | [] \<Rightarrow> [])"

text \<open>\<open>%d\<close> is \<open>3[0-1]|[1-2]\d|0[1-9]|[1-9]| [1-9]\<close>.\<close>

definition match_day :: "string \<Rightarrow> (nat \<times> string) list" where
  "match_day s =
     two (between 3 3) (between 0 1) s @ two (between 1 2) is_digit s
     @ two (between 0 0) (between 1 9) s @ one (between 1 9) s
     @ (case s of a # r \<Rightarrow> if a = CHR '' '' then one (between 1 9) r else [] | [] \<Rightarrow> [])"

text \<open>\<open>%m\<close> is \<open>1[0-2]|0[1-9]|[1-9]\<close>.\<close>

definition match_month :: "string \<Rightarrow> (nat \<times> string) list" where
  "match_month s =
     two (between 1 1) (between 0 2) s @ two (between 0 0) (between 1 9) s @ one (between 1 9) s"

text \<open>\<open>%Y\<close> is \<open>\d\d\d\d\<close>.\<close>

definition match_year :: "string \<Rightarrow> (nat \<times> string) list" where
  "match_year s =
     (if 4 \<le> length s \<and> list_all is_digit (take 4 s) then [(nat_of_digits (take 4 s), drop 4 s)]
      else [])"

definition month_names :: "string list" where
  "month_names = [''january'', ''february'', ''march'', ''april'', ''may'', ''june'', ''july'',
                  ''august'', ''september'', ''october'', ''november'', ''december'']"

text \<open>A month by name, whatever the case of its letters; \<open>%b\<close> takes the first three letters.\<close>

definition match_names :: "string list \<Rightarrow> string \<Rightarrow> (nat \<times> string) list" where
  "match_names names s =
     concat (map (\<lambda>(i, n). if lower (take (length n) s) = n then [(Suc i, drop (length n) s)] else [])
               (enumerate 0 names))"

fun match_format :: "directive list \<Rightarrow> string \<Rightarrow> nat \<times> nat \<times> nat \<Rightarrow> ((nat \<times> nat \<times> nat) \<times> string) list" where
  "match_format [] s ymd = [(ymd, s)]"
| "match_format (Lit c # fs) s ymd =
     (case s of a # r \<Rightarrow> if a = c then match_format fs r ymd else [] | [] \<Rightarrow> [])"
| "match_format (Day # fs) s (y, m, d) = concat (map (\<lambda>(v, r). match_format fs r (y, m, v)) (match_day s))"
| "match_format (Month # fs) s (y, m, d) = concat (map (\<lambda>(v, r). match_format fs r (y, v, d)) (match_month s))"
| "match_format (Year # fs) s (y, m, d) = concat (map (\<lambda>(v, r). match_format fs r (v, m, d)) (match_year s))"
| "match_format (MonthAbbr # fs) s (y, m, d) =
     concat (map (\<lambda>(v, r). match_format fs r (y, v, d)) (match_names (map (take 3) month_names) s))"
| "match_format (MonthName # fs) s (y, m, d) =
     concat (map (\<lambda>(v, r). match_format fs r (y, v, d)) (match_names month_names s))"

definition strptime :: "string \<Rightarrow> directive list \<Rightarrow> (nat \<times> nat \<times> nat) option" where
  "strptime s fmt =
     (case match_format fmt s (1900, 1, 1) of
        [] \<Rightarrow> None
      | ((y, m, d), rest) # _ \<Rightarrow> if rest = [] \<and> valid_date y m d then Some (y, m, d) else None)"

text \<open>
  The formats tried by hand, in the order of the source: \<open>%d-%m-%Y\<close>, \<open>%m/%d/%Y\<close>,
  \<open>%Y-%m-%d\<close>, \<open>%d/%m/%Y\<close>, \<open>%d-%b-%Y\<close>, \<open>%d-%B-%Y\<close>, \<open>%Y%m%d\<close>.
\<close>

definition date_formats :: "directive list list" where
  "date_formats =
     [[Day, Lit (CHR ''-''), Month, Lit (CHR ''-''), Year],
      [Month, Lit (CHR ''/''), Day, Lit (CHR ''/''), Year],
      [Year, Lit (CHR ''-''), Month, Lit (CHR ''-''), Day],
      [Day, Lit (CHR ''/''), Month, Lit (CHR ''/''), Year],
      [Day, Lit (CHR ''-''), MonthAbbr, Lit (CHR ''-''), Year],
      [Day, Lit (CHR ''-''), MonthName, Lit (CHR ''-''), Year],
      [Year, Month, Day]]"

fun first_format :: "string \<Rightarrow> directive list list \<Rightarrow> (nat \<times> nat \<times> nat) option" where
  "first_format s [] = None"
| "first_format s (f # fs) = (case strptime s f of Some r \<Rightarrow> Some r | None \<Rightarrow> first_format s fs)"

text \<open>
  The last resort, \<open>re.search(r'(\d{1,2})[-/](\d{1,2})[-/](\d{2,4})', text)\<close>: the
  leftmost position with a match, each group as long as it can be.
\<close>

definition digits12 :: "string \<Rightarrow> (string \<times> string) list" where
  "digits12 s =
     (case s of
        [] \<Rightarrow> []
      | [a] \<Rightarrow> if is_digit a then [([a], [])] else []
      | a # b # r \<Rightarrow>
          (if is_digit a \<and> is_digit b then [([a, b], r)] else [])
          @ (if is_digit a then [([a], b # r)] else []))"

definition separator :: "string \<Rightarrow> string list" where
  "separator s = (case s of [] \<Rightarrow> [] | c # r \<Rightarrow> if c = CHR ''-'' \<or> c = CHR ''/'' then [r] else [])"

definition digits24 :: "string \<Rightarrow> string list" where
  "digits24 s = (let ds = takeWhile is_digit (take 4 s) in if 2 \<le> length ds then [ds] else [])"

definition match_at :: "string \<Rightarrow> (string \<times> string \<times> string) list" where
  "match_at s =
     concat (map (\<lambda>(g1, r1).
       concat (map (\<lambda>r2.
         concat (map (\<lambda>(g2, r3).
           concat (map (\<lambda>r4. map (\<lambda>g3. (g1, g2, g3)) (digits24 r4)) (separator r3)))
           (digits12 r2)))
         (separator r1)))
       (digits12 s))"

fun date_search :: "string \<Rightarrow> (string \<times> string \<times> string) option" where
  "date_search [] = None"
| "date_search (c # cs) = (case match_at (c # cs) of g # _ \<Rightarrow> Some g | [] \<Rightarrow> date_search cs)"

definition date_from_groups :: "string \<times> string \<times> string \<Rightarrow> (nat \<times> nat \<times> nat) option" where
  "date_from_groups g =
     (case g of (day, month, year) \<Rightarrow>
        (let y = (if length year = 2
                  then (if nat_of_digits year < 50 then 2000 + nat_of_digits year
                        else 1900 + nat_of_digits year)
                  else nat_of_digits year);
             m = nat_of_digits month; d = nat_of_digits day
         in if valid_date y m d then Some (y, m, d) else None))"

definition header_words :: "string list" where
  "header_words = [''date'', ''tran'', ''txn'', ''transaction'']"

text \<open>\<open>_parse_date\<close>: the canonical text of the date, or \<open>None\<close>.\<close>

definition parse_date :: "pylib \<Rightarrow> cell \<Rightarrow> string option" where
  "parse_date L v =
     (case v of
        CNull \<Rightarrow> None
      | CDate y m d \<Rightarrow> Some (iso_date y m d)
      | _ \<Rightarrow>
          (let date_str = strip (cell_str L v) in
           if any_in header_words (lower date_str) then None
           else (case to_datetime L date_str of
                   Some (y, m, d) \<Rightarrow> Some (iso_date y m d)
                 | None \<Rightarrow>
                     (case first_format date_str date_formats of
                        Some (y, m, d) \<Rightarrow> Some (iso_date y m d)
                      | None \<Rightarrow>
                          (case date_search date_str of
                             None \<Rightarrow> None
                           | Some g \<Rightarrow>
                               (case date_from_groups g of
                                  Some (y, m, d) \<Rightarrow> Some (iso_date y m d)
                                | None \<Rightarrow> None))))))"

section \<open>Structure detector\<close>

definition DATE_PATTERNS :: "string list" where
  "DATE_PATTERNS = [''date'', ''tran date'', ''txn date'', ''transaction date'', ''value date'']"

definition DESCRIPTION_PATTERNS :: "string list" where
  "DESCRIPTION_PATTERNS = [''description'', ''narration'', ''particulars'', ''details'', ''transaction details'']"

definition DEBIT_PATTERNS :: "string list" where
  "DEBIT_PATTERNS = [''debit'', ''withdrawal'', ''dr'', ''amount withdrawn'', ''paid'']"

definition CREDIT_PATTERNS :: "string list" where
  "CREDIT_PATTERNS = [''credit'', ''deposit'', ''cr'', ''amount deposited'', ''received'']"

definition BALANCE_PATTERNS :: "string list" where
  "BALANCE_PATTERNS = [''balance'', ''closing balance'', ''available balance'']"

definition REFERENCE_PATTERNS :: "string list" where
  "REFERENCE_PATTERNS = [''chq no'', ''cheque'', ''ref no'', ''reference'', ''transaction id'']"

text \<open>\<open>' '.join(parts)\<close>\<close>

fun join_sp :: "string list \<Rightarrow> string" where
  "join_sp [] = []"
| "join_sp [x] = x"
| "join_sp (x # y # ys) = x @ '' '' @ join_sp (y # ys)"

type_synonym frame = "cell list list"

text \<open>The header row: the first of the first ten rows whose lowered text holds a keyword, else 0.\<close>

fun find_header :: "pylib \<Rightarrow> nat \<Rightarrow> frame \<Rightarrow> nat" where
  "find_header L idx [] = 0"
| "find_header L idx (r # rs) =
     (if 10 \<le> idx then 0
      else if any_in (DATE_PATTERNS @ DEBIT_PATTERNS @ CREDIT_PATTERNS)
                (join_sp (map (\<lambda>v. lower (cell_str L v)) r))
      then idx
      else find_header L (Suc idx) rs)"

definition column_role :: "string \<Rightarrow> string option" where
  "column_role header_lower =
     (if any_in DATE_PATTERNS header_lower then Some ''date''
      else if any_in DESCRIPTION_PATTERNS header_lower then Some ''description''
      else if any_in DEBIT_PATTERNS header_lower then Some ''debit''
      else if any_in CREDIT_PATTERNS header_lower then Some ''credit''
      else if any_in BALANCE_PATTERNS header_lower then Some ''balance''
      else if any_in REFERENCE_PATTERNS header_lower then Some ''reference''
      else None)"

type_synonym column_mapping = "string \<rightharpoonup> nat"

definition map_columns :: "pylib \<Rightarrow> cell list \<Rightarrow> column_mapping" where
  "map_columns L header_values =
     foldl (\<lambda>cm (col_idx, header).
              (case column_role (strip (lower (cell_str L header))) of
                 None \<Rightarrow> cm
               | Some role \<Rightarrow> cm(role \<mapsto> col_idx)))
           Map.empty (enumerate 0 header_values)"

text \<open>\<open>_identify_structure\<close>; \<open>df.iloc[header_row]\<close> raises on a frame without rows.\<close>

definition identify_structure :: "pylib \<Rightarrow> frame \<Rightarrow> exn + nat \<times> column_mapping" where
  "identify_structure L df =
     (let header_row = find_header L 0 df
      in if header_row < length df then Inr (header_row, map_columns L (df ! header_row))
         else Inl IndexError)"

section \<open>Metadata extractor\<close>

record metadata_fields =
  bank_name :: "string option"
  account_number :: "string option"
  account_holder_name :: "string option"
  branch_name :: "string option"
  ifsc_code :: "string option"
  currency :: string

definition is_upper :: "char \<Rightarrow> bool" where
  "is_upper c = (let n = (of_char c :: nat) in 65 \<le> n \<and> n \<le> 90)"

definition is_word :: "char \<Rightarrow> bool" where
  "is_word c = (let n = (of_char c :: nat) in
                  (48 \<le> n \<and> n \<le> 57) \<or> (65 \<le> n \<and> n \<le> 90) \<or> (97 \<le> n \<and> n \<le> 122) \<or> n = 95)"

definition at_boundary :: "string \<Rightarrow> bool" where
  "at_boundary rest = (case rest of [] \<Rightarrow> True | r # _ \<Rightarrow> \<not> is_word r)"

text \<open>
  \<open>re.search(r'\b\d{10,16}\b', text)\<close>: the first run of ten to sixteen digits with no
  word character on either side. The flag says whether the character before is one.
\<close>

fun account_search :: "bool \<Rightarrow> string \<Rightarrow> string option" where
  "account_search prev [] = None"
| "account_search prev (c # cs) =
     (let run = takeWhile is_digit (c # cs) in
      if \<not> prev \<and> 10 \<le> length run \<and> length run \<le> 16 \<and> at_boundary (dropWhile is_digit (c # cs))
      then Some run
      else account_search (is_word c) cs)"

text \<open>\<open>re.search(r'\b[A-Z]{4}0[A-Z0-9]{6}\b', text)\<close>\<close>

fun ifsc_search :: "bool \<Rightarrow> string \<Rightarrow> string option" where
  "ifsc_search prev [] = None"
| "ifsc_search prev (c # cs) =
     (let m = take 11 (c # cs) in
      if \<not> prev \<and> length m = 11 \<and> list_all is_upper (take 4 m) \<and> m ! 4 = CHR ''0''
         \<and> list_all (\<lambda>x. is_upper x \<or> is_digit x) (drop 5 m) \<and> at_boundary (drop 11 (c # cs))
      then Some m
      else ifsc_search (is_word c) cs)"

definition bank_keywords :: "string list" where
  "bank_keywords = [''HDFC'', ''ICICI'', ''SBI'', ''AXIS'', ''KOTAK'', ''YES BANK'', ''PNB'', ''BOB'', ''BANK OF'']"

text \<open>\<open>' '.join([str(val) for val in row if pd.notna(val)])\<close>\<close>

definition row_text_of :: "pylib \<Rightarrow> cell list \<Rightarrow> string" where
  "row_text_of L r = join_sp (map (cell_str L) (filter (\<lambda>v. \<not> isna v) r))"

text \<open>One pass of the loop over the rows before the header.\<close>

definition metadata_row :: "pylib \<Rightarrow> metadata_fields \<Rightarrow> cell list \<Rightarrow> metadata_fields" where
  "metadata_row L md r =
     (let row_text = row_text_of L r;
          md1 = (case account_search False row_text of
                   Some a \<Rightarrow> if account_number md = None
                             then md\<lparr>account_number := Some a\<rparr> else md
                 | None \<Rightarrow> md);
          md2 = (case ifsc_search False row_text of
                   Some i \<Rightarrow> md1\<lparr>ifsc_code := Some i\<rparr>
                 | None \<Rightarrow> md1)
      in (case find (\<lambda>bank. contains bank (upper row_text)) bank_keywords of
            Some bank \<Rightarrow> md2\<lparr>bank_name := Some bank\<rparr>
          | None \<Rightarrow> md2))"

definition empty_metadata :: metadata_fields where
  "empty_metadata =
     \<lparr>bank_name = None, account_number = None, account_holder_name = None, branch_name = None,
      ifsc_code = None, currency = ''INR''\<rparr>"

text \<open>\<open>_extract_metadata\<close>: the rows with index below \<open>header_row\<close>, top down.\<close>

definition extract_metadata :: "pylib \<Rightarrow> frame \<Rightarrow> nat \<Rightarrow> metadata_fields" where
  "extract_metadata L df header_row = foldl (metadata_row L) empty_metadata (take header_row df)"

section \<open>Transaction extractor\<close>

record transaction =
  date :: string
  description :: string
  debit :: real
  credit :: real
  balance :: real
  transaction_type :: string
  reference_number :: "string option"

text \<open>The dictionary the source builds for a transaction, as the validators read it.\<close>

definition as_dict :: "transaction \<Rightarrow> pydict" where
  "as_dict t =
     [''date'' \<mapsto> PStr (date t), ''description'' \<mapsto> PStr (description t),
      ''debit'' \<mapsto> PNum (debit t), ''credit'' \<mapsto> PNum (credit t),
      ''balance'' \<mapsto> PNum (balance t), ''transaction_type'' \<mapsto> PStr (transaction_type t),
      ''reference_number'' \<mapsto> (case reference_number t of None \<Rightarrow> PNone | Some r \<Rightarrow> PStr r)]"

text \<open>The counters \<open>skipped_count\<close> and \<open>skipped_reasons\<close> of the loop.\<close>

record tally =
  skipped_count :: nat
  empty_row :: nat
  no_date :: nat
  parse_fail :: nat

datatype row_outcome = Emitted transaction | EmptyRow | NoDate | ParseFail

text \<open>\<open>row.iloc[i]\<close> raises \<open>IndexError\<close> past the end of the row.\<close>

definition iloc :: "cell list \<Rightarrow> nat \<Rightarrow> exn + cell" where
  "iloc r i = (if i < length r then Inr (r ! i) else Inl IndexError)"

text \<open>An amount column: \<open>0.0\<close> when the role is not mapped, else \<open>_parse_amount\<close> of the cell.\<close>

definition amount_column :: "pylib \<Rightarrow> column_mapping \<Rightarrow> string \<Rightarrow> cell list \<Rightarrow> exn + real" where
  "amount_column L cm role r =
     (case cm role of
        None \<Rightarrow> Inr 0
      | Some col \<Rightarrow> bind_exn (iloc r col) (\<lambda>v. Inr (parse_amount L v)))"

text \<open>The body of the loop of \<open>_extract_transactions\<close> on one row.\<close>

definition extract_row :: "pylib \<Rightarrow> column_mapping \<Rightarrow> cell list \<Rightarrow> exn + row_outcome" where
  "extract_row L cm r =
     (if list_all isna r then Inr EmptyRow
      else
        bind_exn (iloc r (case cm ''date'' of None \<Rightarrow> 0 | Some c \<Rightarrow> c)) (\<lambda>date_value.
          if isna date_value then Inr NoDate
          else (case parse_date L date_value of
                  None \<Rightarrow> Inr ParseFail
                | Some parsed_date \<Rightarrow>
                    bind_exn (case cm ''description'' of
                                None \<Rightarrow> Inr []
                              | Some c \<Rightarrow> bind_exn (iloc r c)
                                           (\<lambda>v. Inr (if isna v then [] else cell_str L v))) (\<lambda>descr.
                    bind_exn (amount_column L cm ''debit'' r) (\<lambda>deb.
                    bind_exn (amount_column L cm ''credit'' r) (\<lambda>cred.
                    bind_exn (amount_column L cm ''balance'' r) (\<lambda>bal.
                    bind_exn (case cm ''reference'' of
                                None \<Rightarrow> Inr None
                              | Some c \<Rightarrow> bind_exn (iloc r c)
                                           (\<lambda>v. Inr (if isna v then None else Some (cell_str L v)))) (\<lambda>ref.
                      Inr (Emitted
                        \<lparr>date = parsed_date, description = strip descr, debit = deb, credit = cred,
                         balance = bal,
                         transaction_type = (if cred > 0 then ''credit'' else ''debit''),
                         reference_number = ref\<rparr>)))))))))"

definition count_skip :: "row_outcome \<Rightarrow> tally \<Rightarrow> tally" where
  "count_skip out t =
     (case out of
        Emitted tx \<Rightarrow> t
      | EmptyRow \<Rightarrow> t\<lparr>skipped_count := skipped_count t + 1, empty_row := empty_row t + 1\<rparr>
      | NoDate \<Rightarrow> t\<lparr>skipped_count := skipped_count t + 1, no_date := no_date t + 1\<rparr>
      | ParseFail \<Rightarrow> t\<lparr>skipped_count := skipped_count t + 1, parse_fail := parse_fail t + 1\<rparr>)"

definition emit :: "row_outcome \<Rightarrow> transaction list \<Rightarrow> transaction list" where
  "emit out txs = (case out of Emitted tx \<Rightarrow> txs @ [tx] | _ \<Rightarrow> txs)"

text \<open>The loop, on the list built so far and the counters; an exception ends it.\<close>

fun extract_loop ::
  "pylib \<Rightarrow> column_mapping \<Rightarrow> frame \<Rightarrow> transaction list \<times> tally \<Rightarrow> exn + transaction list \<times> tally" where
  "extract_loop L cm [] st = Inr st"
| "extract_loop L cm (r # rs) st =
     bind_exn (extract_row L cm r) (\<lambda>out.
       extract_loop L cm rs (emit out (fst st), count_skip out (snd st)))"

definition zero_tally :: tally where
  "zero_tally = \<lparr>skipped_count = 0, empty_row = 0, no_date = 0, parse_fail = 0\<rparr>"

text \<open>\<open>_extract_transactions\<close>, with the counters it logs.\<close>

definition extract_transactions :: "pylib \<Rightarrow> frame \<Rightarrow> column_mapping \<Rightarrow> exn + transaction list \<times> tally" where
  "extract_transactions L transactions_df cm = extract_loop L cm transactions_df ([], zero_tally)"

section \<open>Summary calculator and assembly\<close>

text \<open>\<open>round(x, 2)\<close> on the real value: to the nearest hundredth, a tie to the even one.\<close>

definition round2 :: "real \<Rightarrow> real" where
  "round2 r =
     (let x = r * 100; f = \<lfloor>x\<rfloor>; d = x - real_of_int f
      in real_of_int (if d < 1 / 2 then f else if 1 / 2 < d then f + 1
                      else if even f then f else f + 1) / 100)"

record summary =
  statement_period_from :: "string option"
  statement_period_to :: "string option"
  opening_balance :: real
  closing_balance :: real
  total_credits :: real
  total_debits :: real

definition calculate_summary :: "transaction list \<Rightarrow> summary" where
  "calculate_summary txs =
     (if txs = [] then
        \<lparr>statement_period_from = None, statement_period_to = None, opening_balance = 0,
         closing_balance = 0, total_credits = 0, total_debits = 0\<rparr>
      else
        (let dates = filter (\<lambda>d. d \<noteq> []) (map date txs);
             tc = sum_list (map credit txs);
             td = sum_list (map debit txs);
             ob = balance (hd txs) - credit (hd txs) + debit (hd txs);
             cb = balance (last txs)
         in \<lparr>statement_period_from = (if dates = [] then None else Some (hd dates)),
             statement_period_to = (if dates = [] then None else Some (last dates)),
             opening_balance = round2 ob, closing_balance = round2 cb,
             total_credits = round2 tc, total_debits = round2 td\<rparr>))"

record extraction =
  meta :: metadata_fields
  totals :: summary
  rows :: "transaction list"
  number_of_transactions :: nat
  skipped :: tally

text \<open>
  \<open>convert\<close> from the loaded frame on: structure, metadata, the rows after the header,
  summary. \<open>Inl\<close> is the exception that \<open>convert\<close> turns into \<open>success: False\<close>.
\<close>

definition convert :: "pylib \<Rightarrow> frame \<Rightarrow> exn + extraction" where
  "convert L df =
     bind_exn (identify_structure L df) (\<lambda>(header_row, cm).
       (let md = extract_metadata L df header_row in
        bind_exn (extract_transactions L (drop (header_row + 1) df) cm) (\<lambda>(txs, sk).
          Inr \<lparr>meta = md, totals = calculate_summary txs, rows = txs,
               number_of_transactions = length txs, skipped = sk\<rparr>)))"

definition opt_str :: "string option \<Rightarrow> pyval" where
  "opt_str x = (case x of None \<Rightarrow> PNone | Some s \<Rightarrow> PStr s)"

text \<open>The record \<open>result\<close> of \<open>convert\<close> as the dictionary handed to the validators.\<close>

definition statement_of :: "extraction \<Rightarrow> statement_data" where
  "statement_of x =
     \<lparr>entries =
        [''bank_name'' \<mapsto> opt_str (bank_name (meta x)),
         ''account_number'' \<mapsto> opt_str (account_number (meta x)),
         ''account_holder_name'' \<mapsto> opt_str (account_holder_name (meta x)),
         ''branch_name'' \<mapsto> opt_str (branch_name (meta x)),
         ''ifsc_code'' \<mapsto> opt_str (ifsc_code (meta x)),
         ''currency'' \<mapsto> PStr (currency (meta x)),
         ''statement_period_from'' \<mapsto> opt_str (statement_period_from (totals x)),
         ''statement_period_to'' \<mapsto> opt_str (statement_period_to (totals x)),
         ''opening_balance'' \<mapsto> PNum (opening_balance (totals x)),
         ''closing_balance'' \<mapsto> PNum (closing_balance (totals x)),
         ''total_credits'' \<mapsto> PNum (total_credits (totals x)),
         ''total_debits'' \<mapsto> PNum (total_debits (totals x)),
         ''number_of_transactions'' \<mapsto> PNum (real (number_of_transactions x))],
      transactions = map as_dict (rows x)\<rparr>"

section \<open>Sample inputs\<close>

text \<open>
  A library instance for the closed examples below, none of which puts a float where its
  text is read: \<open>to_datetime\<close> reads day, month and year separated by dashes, as the
  day-first reading does on such a text, and \<open>float_str\<close> prints an integral float.
\<close>

definition sample_lib :: pylib where
  "sample_lib =
     \<lparr>to_datetime = (\<lambda>s. strptime s [Day, Lit (CHR ''-''), Month, Lit (CHR ''-''), Year]),
      float_str = (\<lambda>r. str_int \<lfloor>r\<rfloor> @ ''.0'')\<rparr>"

text \<open>
  The grid of the scenario: the header, a salary credit of 5000 with balance 15000, and a
  withdrawal of 2000 whose stated balance is 9000 instead of 13000.
\<close>

definition scenario_grid :: frame where
  "scenario_grid =
     [[CStr ''Date'', CStr ''Narration'', CStr ''Debit'', CStr ''Credit'', CStr ''Balance''],
      [CStr ''01-01-2024'', CStr ''Salary'', CInt 0, CInt 5000, CInt 15000],
      [CStr ''02-01-2024'', CStr ''ATM'', CInt 2000, CInt 0, CInt 9000]]"

text \<open>The column roles that the structure detector finds for the header of the scenario.\<close>

definition scenario_columns :: column_mapping where
  "scenario_columns =
     [''date'' \<mapsto> 0, ''description'' \<mapsto> 1, ''debit'' \<mapsto> 2, ''credit'' \<mapsto> 3, ''balance'' \<mapsto> 4]"

text \<open>Two rows without a usable balance: an empty balance cell, and the text \<open>n/a\<close>.\<close>

definition blank_balance_rows :: frame where
  "blank_balance_rows =
     [[CStr ''01-01-2024'', CStr ''Salary'', CInt 0, CInt 5000, CNull],
      [CStr ''02-01-2024'', CStr ''ATM'', CStr ''n/a'', CNull, CStr ''n/a'']]"

text \<open>What an error says, without its context: kind, field, expected and actual value.\<close>

definition brief :: "ValidationError \<Rightarrow> ValidationErrorType \<times> string option \<times> real option \<times> real option" where
  "brief e = (error_type e, field e, expected e, actual e)"

text \<open>In the words of the specification: the date that the first column of a row parses to.\<close>

definition first_column_date :: "pylib \<Rightarrow> cell list \<Rightarrow> string option" where
  "first_column_date L r = (case r of [] \<Rightarrow> None | v # _ \<Rightarrow> parse_date L v)"

text \<open>The bank keyword that a row names: the first of the list found in its upper-cased text.\<close>

definition bank_in_row :: "pylib \<Rightarrow> cell list \<Rightarrow> string option" where
  "bank_in_row L r = find (\<lambda>bank. contains bank (upper (row_text_of L r))) bank_keywords"

text \<open>Rows under a mapping that has only a credit column: a dated row, a row without a
  first cell, a row whose first cell is no date, and an empty row.\<close>

definition credit_only :: column_mapping where
  "credit_only = [''credit'' \<mapsto> 1]"

definition undated_rows :: frame where
  "undated_rows =
     [[CStr ''01-01-2024'', CInt 5000], [CNull, CInt 7], [CStr ''abc'', CInt 1], [CNull, CNull]]"

text \<open>A sheet whose only mention of a bank is inside the narration of a transaction.\<close>

definition narration_bank_grid :: frame where
  "narration_bank_grid =
     [[CStr ''Savings account'', CNull, CNull, CNull, CNull],
      [CStr ''Date'', CStr ''Narration'', CStr ''Debit'', CStr ''Credit'', CStr ''Balance''],
      [CStr ''01-01-2024'', CStr ''UPI/HDFC BANK/salary'', CInt 0, CInt 5000, CInt 15000]]"

text \<open>The same sheet with the bank named in the line above the header.\<close>

definition bank_header_grid :: frame where
  "bank_header_grid =
     [[CStr ''HDFC Bank'', CNull, CNull, CNull, CNull],
      [CStr ''Date'', CStr ''Narration'', CStr ''Debit'', CStr ''Credit'', CStr ''Balance''],
      [CStr ''01-01-2024'', CStr ''UPI/salary'', CInt 0, CInt 5000, CInt 15000]]"

text \<open>The row index that a progression error carries in its context.\<close>

definition transaction_index :: "ValidationError \<Rightarrow> pyval option" where
  "transaction_index e = (case error_context e of None \<Rightarrow> None | Some c \<Rightarrow> map_of c ''transaction_index'')"

text \<open>
  Statements of one row from an opening balance of 10000. The first row carries a credit
  of 5000 and a debit of 2000 and states 13000; the second carries a debit of 2000 and a
  credit of -5, the third a debit of 2000 and a credit of 0.004, and both state 9000.
\<close>

definition one_row :: "real \<Rightarrow> real \<Rightarrow> real \<Rightarrow> statement_data" where
  "one_row d c b = \<lparr>entries = [''opening_balance'' \<mapsto> PNum 10000], transactions = [row d c b]\<rparr>"

definition credit_and_debit :: statement_data where
  "credit_and_debit = one_row 2000 5000 13000"

definition negative_credit :: statement_data where
  "negative_credit = one_row 2000 (- 5) 9000"

definition subcent_credit :: statement_data where
  "subcent_credit = one_row 2000 (4 / 1000) 9000"





section \<open>Properties of the validation models\<close>

lemmas text_defs = decimal_of_string_def strip_def is_space_def is_digit_def split_sign_def
  parse_exp_def nat_of_digits_def scale10_def

lemmas decimal_defs = to_decimal_def quantize_def bind_exn_def get_default_def get_def need_def
  currency_literal_def

lemmas result_defs = mk_error_def mk_warning_def add_error_def add_warning_def new_result_def

lemma status_add_error: "status (add_error e r) = (if status r = ''passed'' then ''failed'' else status r)"
  by (simp add: add_error_def)

lemma status_add_warning: "status (add_warning w r) = (if status r = ''passed'' then ''warnings'' else status r)"
  by (simp add: add_warning_def)

lemma status_apply_call_fixed: "status r \<noteq> ''passed'' \<Longrightarrow> status (apply_call r c) = status r"
  by (cases c) (simp_all add: status_add_error status_add_warning)

lemma status_foldl_fixed: "status r \<noteq> ''passed'' \<Longrightarrow> status (foldl apply_call r cs) = status r"
  by (induction cs arbitrary: r) (simp_all add: status_apply_call_fixed)

text \<open>The status after a run of calls is settled by the first call alone.\<close>

lemma status_first_call:
  "status (run_calls (new_result n md) (c # cs)) = (if is_error_call c then ''failed'' else ''warnings'')"
proof (cases c)
  case (AddError e)
  have "status (add_error e (new_result n md)) = ''failed''"
    by (simp add: status_add_error new_result_def)
  then have "status (foldl apply_call (add_error e (new_result n md)) cs) = ''failed''"
    by (simp add: status_foldl_fixed)
  with AddError show ?thesis by (simp add: run_calls_def is_error_call_def)
next
  case (AddWarning w)
  have "status (add_warning w (new_result n md)) = ''warnings''"
    by (simp add: status_add_warning new_result_def)
  then have "status (foldl apply_call (add_warning w (new_result n md)) cs) = ''warnings''"
    by (simp add: status_foldl_fixed)
  with AddWarning show ?thesis by (simp add: run_calls_def is_error_call_def)
qed

text \<open>
  C2. The claim: after any sequence of \<open>add_error\<close> and \<open>add_warning\<close> calls the status is
  failed as soon as one error was added. The code at a warning followed by an error: the
  error is stored and \<open>passed\<close> is cleared, the status stays at warnings, and
  \<open>from_results\<close> on that same result reports failed.
\<close>

theorem warning_then_error_status:
  "(let r = run_calls (new_result ''balance_validator'' [])
              [AddWarning (mk_warning ''minor_balance_difference'' None None),
               AddError (mk_error BALANCE_MISMATCH ERROR None None None None)]
    in status r = ''warnings'' \<and> error_count r = 1 \<and> \<not> passed r
       \<and> overall_status (from_results ''s'' [(''balance_validation'', r)]) = ''failed'')"
  by (simp add: run_calls_def result_defs error_count_def warning_count_def from_results_def)

section \<open>Properties of the balance validator\<close>

lemmas progression_defs = transaction_step_def transaction_body_def expected_balance_def
  description50_def str_nat.simps

text \<open>
  C1. The claim: after a row whose stated balance diverges, the running balance is set to
  the stated value, so the rows after it are checked against what the statement says. The
  code on \<open>one_bad_row\<close>: the bad row 1 is reported, the running balance stays at the
  15000 of row 0, and row 2 is reported against an expected 14000 although its stated
  8000 is the stated 9000 less its debit of 1000.
\<close>

theorem one_bad_row_cascades:
  "map_sum id (\<lambda>r. map (\<lambda>e. (field e, expected e, actual e)) (errors r))
     (validate_transaction_balances (1 / 100) one_bad_row (new_result ''balance_validator'' []))
   = Inr [(Some ''transactions[1].balance'', Some 13000, Some 9000),
          (Some ''transactions[2].balance'', Some 14000, Some 8000)]"
  by (simp add: validate_transaction_balances_def one_bad_row_def row_def progression_defs
        decimal_defs result_defs)

lemma transaction_loop_append:
  "transaction_loop tol idx (xs @ ys) st
     = transaction_loop tol (idx + length xs) ys (transaction_loop tol idx xs st)"
  by (induction xs arbitrary: idx st) simp_all

lemma transaction_step_converted:
  assumes "to_decimal (get_default t ''credit'' (PNum 0)) = Inr (Some c)"
      and "to_decimal (get_default t ''debit'' (PNum 0)) = Inr (Some d)"
      and "to_decimal (get t ''balance'') = Inr sb"
      and "description50 t = Inr descr"
  shows "transaction_step tol idx t (rb, res) =
           (let e = (if 0 < c then rb + c else rb - d) in
            case sb of
              None \<Rightarrow> (e, res)
            | Some b \<Rightarrow>
                if \<bar>b - e\<bar> > tol
                then (rb, add_error (mk_error BALANCE_MISMATCH ERROR
                            (Some (''transactions['' @ str_nat idx @ ''].balance'')) (Some e) (Some b)
                            (Some [(''transaction_index'', PNum (real idx)),
                                   (''transaction_date'', get t ''date''),
                                   (''description'', descr),
                                   (''debit'', PNum d), (''credit'', PNum c)])) res)
                else (b, res))"
  using assms
  by (cases sb) (simp_all add: transaction_step_def transaction_body_def expected_balance_def
        bind_exn_def need_def Let_def)

text \<open>
  C10, as the code has it. The progression check converts the credit and the debit of a
  row to decimals of two places. When the converted credit is greater than 0, the expected
  balance is the running balance plus the credit and the debit does not enter; in every
  other case (a credit of 0, a credit that rounds to 0.00, a negative credit) it is the
  running balance less the debit, and the credit does not enter. So a row with a positive
  credit and a positive debit has its debit left out. The statement is about the whole
  check: for any row \<open>t\<close> of a statement, after the rows \<open>pre\<close> before it have
  left the running balance \<open>rb\<close>, the result of \<open>_validate_transaction_balances\<close> is
  the one obtained by comparing the stated balance with that expected value.
\<close>

theorem progression_expected_balance:
  assumes "to_decimal (get (entries sd) ''opening_balance'') = Inr (Some ob)"
      and "transactions sd = pre @ t # post"
      and "transaction_loop tol 0 pre (ob, res) = (rb, r1)"
      and "to_decimal (get_default t ''credit'' (PNum 0)) = Inr (Some c)"
      and "to_decimal (get_default t ''debit'' (PNum 0)) = Inr (Some d)"
      and "to_decimal (get t ''balance'') = Inr sb"
      and "description50 t = Inr descr"
  shows "validate_transaction_balances tol sd res =
           Inr (snd (transaction_loop tol (Suc (length pre)) post
             (let e = (if 0 < c then rb + c else rb - d) in
              case sb of
                None \<Rightarrow> (e, r1)
              | Some b \<Rightarrow>
                  if \<bar>b - e\<bar> > tol
                  then (rb, add_error (mk_error BALANCE_MISMATCH ERROR
                              (Some (''transactions['' @ str_nat (length pre) @ ''].balance''))
                              (Some e) (Some b)
                              (Some [(''transaction_index'', PNum (real (length pre))),
                                     (''transaction_date'', get t ''date''),
                                     (''description'', descr),
                                     (''debit'', PNum d), (''credit'', PNum c)])) r1)
                  else (b, r1))))"
proof -
  have "transaction_loop tol 0 (pre @ t # post) (ob, res)
          = transaction_loop tol (Suc (length pre)) post (transaction_step tol (length pre) t (rb, r1))"
    by (simp add: transaction_loop_append assms(3))
  then show ?thesis
    by (simp add: validate_transaction_balances_def assms(1,2) bind_exn_def
          transaction_step_converted[OF assms(4-7)])
qed

theorem progression_expected_balance_witness:
  "map_sum id (\<lambda>r. map brief (errors r))
     (validate_transaction_balances (1 / 100) credit_and_debit (new_result ''balance_validator'' []))
   = Inr [(BALANCE_MISMATCH, Some ''transactions[0].balance'', Some 15000, Some 13000)]"
proof -
  have t: "transactions credit_and_debit = [] @ row 2000 5000 13000 # []"
    by (simp add: credit_and_debit_def one_row_def)
  have "validate_transaction_balances (1 / 100) credit_and_debit (new_result ''balance_validator'' [])
        = Inr (add_error (mk_error BALANCE_MISMATCH ERROR (Some ''transactions[0].balance'')
                  (Some 15000) (Some 13000)
                  (Some [(''transaction_index'', PNum 0), (''transaction_date'', PNone),
                         (''description'', PStr []), (''debit'', PNum 2000), (''credit'', PNum 5000)]))
                (new_result ''balance_validator'' []))"
    using progression_expected_balance[of credit_and_debit 10000 "[]" "row 2000 5000 13000" "[]"
            "1 / 100" "new_result ''balance_validator'' []" 10000 "new_result ''balance_validator'' []"
            5000 2000 "Some 13000" "PStr []", OF _ t]
    by (simp add: credit_and_debit_def one_row_def row_def decimal_defs description50_def
          str_nat.simps)
  then show ?thesis by (simp add: result_defs brief_def)
qed

text \<open>
  C10, as the claim states it: the debit is subtracted only when the credit equals 0. On
  \<open>negative_credit\<close> (credit -5) and on \<open>subcent_credit\<close> (credit 0.004, which is
  greater than 0) the expected balance that the check reports is 10000 less the debit
  of 2000.
\<close>

theorem debit_subtracted_when_credit_not_zero:
  "map_sum id (\<lambda>r. map brief (errors r))
     (validate_transaction_balances (1 / 100) negative_credit (new_result ''balance_validator'' []))
   = Inr [(BALANCE_MISMATCH, Some ''transactions[0].balance'', Some 8000, Some 9000)]
   \<and> map_sum id (\<lambda>r. map brief (errors r))
     (validate_transaction_balances (1 / 100) subcent_credit (new_result ''balance_validator'' []))
   = Inr [(BALANCE_MISMATCH, Some ''transactions[0].balance'', Some 8000, Some 9000)]"
  by (simp add: validate_transaction_balances_def negative_credit_def subcent_credit_def one_row_def
        row_def progression_defs decimal_defs result_defs brief_def)

text \<open>
  C5. The claim: the validators never raise; a malformed field becomes an issue. The
  code on \<open>text_credit\<close>: the progression check catches the failed conversion of the
  credit and records an issue for row 0, and the totals check, which has no handler,
  lets \<open>InvalidOperation\<close> leave \<open>validate_statement\<close>.
\<close>

theorem text_credit_raises:
  "validate_statement (1 / 100) text_credit = Inl InvalidOperation
   \<and> map_sum id (\<lambda>r. map (\<lambda>e. (error_type e, field e)) (errors r))
       (validate_transaction_balances (1 / 100) text_credit (new_result ''balance_validator'' []))
     = Inr [(CALCULATION_ERROR, Some ''transactions[0]'')]"
  by (simp add: validate_statement_def validate_opening_closing_def opening_closing_body_def
        validate_transaction_balances_def validate_totals_def text_credit_def
        progression_defs decimal_defs result_defs text_defs Let_def)

section \<open>Properties of the cell parsers and the transaction extractor\<close>

lemmas amount_defs = parse_amount_def clean_amount_def cell_str_def rupee_def float_of_string_def
  float_exp_def strip_def is_space_def is_digit_def split_sign_def nat_of_digits_def scale10_def

lemmas date_defs = parse_date_def cell_str_def strip_def is_space_def is_digit_def
  any_in_def header_words_def lower_def lower_char_def date_formats_def strptime_def
  match_day_def match_month_def match_year_def match_names_def month_names_def two_def one_def
  between_def digit_val_def nat_of_digits_def valid_date_def days_in_month_def leap_year_def
  iso_date_def pad_def str_nat.simps digits12_def digits24_def separator_def match_at_def
  date_from_groups_def

lemmas row_defs = extract_row_def amount_column_def iloc_def isna_def bind_exn_def

































lemma parse_amount_zero: "isna v \<or> non_numeric L v \<Longrightarrow> parse_amount L v = 0"
  by (cases v) (auto simp: parse_amount_def non_numeric_def isna_def)

lemma amount_column_mapped:
  "cm role = Some col \<Longrightarrow> amount_column L cm role r = Inr x
     \<Longrightarrow> col < length r \<and> x = parse_amount L (r ! col)"
  by (auto simp: amount_column_def iloc_def bind_exn_def split: if_splits)

lemma extract_row_Emitted:
  assumes "extract_row L cm r = Inr (Emitted tx)"
  shows "amount_column L cm ''debit'' r = Inr (debit tx)"
    and "amount_column L cm ''credit'' r = Inr (credit tx)"
    and "amount_column L cm ''balance'' r = Inr (balance tx)"
    and "transaction_type tx = (if credit tx > 0 then ''credit'' else ''debit'')"
    and "\<exists>dv. iloc r (case cm ''date'' of None \<Rightarrow> 0 | Some c \<Rightarrow> c) = Inr dv
              \<and> \<not> isna dv \<and> parse_date L dv = Some (date tx)"
    and "\<not> list_all isna r"
  using assms
  by (auto simp: extract_row_def bind_exn_def split: if_splits sum.splits option.splits)

lemma extract_loop_all:
  assumes "extract_loop L cm rs st = Inr (txs, sk)"
      and "\<forall>t\<in>set (fst st). P t"
      and "\<And>r t. extract_row L cm r = Inr (Emitted t) \<Longrightarrow> P t"
  shows "\<forall>t\<in>set txs. P t"
  using assms(1,2)
proof (induction rs arbitrary: st)
  case Nil
  then show ?case by auto
next
  case (Cons r rs)
  from Cons.prems(1) obtain out where out: "extract_row L cm r = Inr out"
    and rest: "extract_loop L cm rs (emit out (fst st), count_skip out (snd st)) = Inr (txs, sk)"
    by (auto simp: bind_exn_def split: sum.splits)
  have "\<forall>t\<in>set (fst (emit out (fst st), count_skip out (snd st))). P t"
    using Cons.prems(2) out assms(3) by (cases out) (auto simp: emit_def)
  with Cons.IH[OF rest] show ?case by blast
qed

text \<open>
  C4, as the code has it. For every row that the extractor emits, an empty or non-numeric
  cell in the debit, the credit or the balance column gives the amount 0.0; the balance
  of a transaction is always a number in the dictionary, never Python's \<open>None\<close>.
\<close>

theorem blank_amount_cells_give_zero:
  assumes "extract_row L cm r = Inr (Emitted tx)"
  shows "(\<forall>col. cm ''debit'' = Some col \<and> (isna (r ! col) \<or> non_numeric L (r ! col)) \<longrightarrow> debit tx = 0)
       \<and> (\<forall>col. cm ''credit'' = Some col \<and> (isna (r ! col) \<or> non_numeric L (r ! col)) \<longrightarrow> credit tx = 0)
       \<and> (\<forall>col. cm ''balance'' = Some col \<and> (isna (r ! col) \<or> non_numeric L (r ! col)) \<longrightarrow> balance tx = 0)
       \<and> as_dict tx ''balance'' = Some (PNum (balance tx))"
proof -
  have "debit tx = 0" if "cm ''debit'' = Some col" "isna (r ! col) \<or> non_numeric L (r ! col)" for col
    using amount_column_mapped[OF that(1) extract_row_Emitted(1)[OF assms]] parse_amount_zero[OF that(2)]
    by simp
  moreover have "credit tx = 0" if "cm ''credit'' = Some col" "isna (r ! col) \<or> non_numeric L (r ! col)" for col
    using amount_column_mapped[OF that(1) extract_row_Emitted(2)[OF assms]] parse_amount_zero[OF that(2)]
    by simp
  moreover have "balance tx = 0" if "cm ''balance'' = Some col" "isna (r ! col) \<or> non_numeric L (r ! col)" for col
    using amount_column_mapped[OF that(1) extract_row_Emitted(3)[OF assms]] parse_amount_zero[OF that(2)]
    by simp
  moreover have "as_dict tx ''balance'' = Some (PNum (balance tx))"
    by (simp add: as_dict_def)
  ultimately show ?thesis by blast
qed

theorem blank_amount_cells_give_zero_witness:
  "(case extract_row sample_lib scenario_columns (blank_balance_rows ! 1) of
      Inr (Emitted tx) \<Rightarrow>
        non_numeric sample_lib (blank_balance_rows ! 1 ! 2) \<and> isna (blank_balance_rows ! 1 ! 3)
        \<and> debit tx = 0 \<and> credit tx = 0 \<and> balance tx = 0
        \<and> as_dict tx ''balance'' = Some (PNum 0)
    | _ \<Rightarrow> False)"
proof -
  obtain tx where tx: "extract_row sample_lib scenario_columns (blank_balance_rows ! 1) = Inr (Emitted tx)"
    by (simp add: row_defs blank_balance_rows_def scenario_columns_def sample_lib_def date_defs
          amount_defs)
  have n: "non_numeric sample_lib (blank_balance_rows ! 1 ! 2)"
    by (simp add: blank_balance_rows_def non_numeric_def special_float_def amount_defs lower_def
          lower_char_def)
  have e: "isna (blank_balance_rows ! 1 ! 3)"
    by (simp add: blank_balance_rows_def isna_def)
  have c: "scenario_columns ''debit'' = Some 2" "scenario_columns ''credit'' = Some 3"
    "scenario_columns ''balance'' = Some 4"
    by (simp_all add: scenario_columns_def)
  have b: "non_numeric sample_lib (blank_balance_rows ! 1 ! 4)"
    by (simp add: blank_balance_rows_def non_numeric_def special_float_def amount_defs lower_def
          lower_char_def)
  from blank_amount_cells_give_zero[OF tx] n e b c
  have "debit tx = 0 \<and> credit tx = 0 \<and> balance tx = 0 \<and> as_dict tx ''balance'' = Some (PNum 0)"
    by auto
  with tx n e show ?thesis by simp
qed

text \<open>
  C4, as the claim states it: an empty or non-numeric balance cell gives a null balance.
  On \<open>blank_balance_rows\<close> both transactions come out with the number 0 as balance.
\<close>

theorem blank_balance_is_zero_not_null:
  "map_sum id (\<lambda>res. map (\<lambda>t. as_dict t ''balance'') (fst res))
     (extract_transactions sample_lib blank_balance_rows scenario_columns)
   = Inr [Some (PNum 0), Some (PNum 0)]"
  by (simp add: extract_transactions_def row_defs emit_def count_skip_def zero_tally_def
        blank_balance_rows_def scenario_columns_def sample_lib_def date_defs amount_defs as_dict_def)

text \<open>
  C6. Every transaction that the extractor emits has the type credit exactly when its
  credit amount is greater than 0, and the type debit otherwise.
\<close>

theorem transaction_type_iff_credit_positive:
  assumes "convert L df = Inr x"
  shows "list_all (\<lambda>t. (transaction_type t = ''credit'' \<longleftrightarrow> credit t > 0)
                      \<and> (transaction_type t = ''debit'' \<longleftrightarrow> \<not> credit t > 0)) (rows x)"
proof -
  from assms obtain h cm sk where
    ex: "extract_loop L cm (drop (h + 1) df) ([], zero_tally) = Inr (rows x, sk)"
    by (auto simp: convert_def bind_exn_def extract_transactions_def Let_def
             split: sum.splits prod.splits)
  have "\<forall>t\<in>set (rows x). (transaction_type t = ''credit'' \<longleftrightarrow> credit t > 0)
                      \<and> (transaction_type t = ''debit'' \<longleftrightarrow> \<not> credit t > 0)"
    by (rule extract_loop_all[OF ex]) (auto simp: extract_row_Emitted(4))
  then show ?thesis by (simp add: list_all_iff)
qed

section \<open>The scenario grid\<close>

lemmas structure_defs = identify_structure_def map_columns_def column_role_def
  DATE_PATTERNS_def DESCRIPTION_PATTERNS_def DEBIT_PATTERNS_def CREDIT_PATTERNS_def
  BALANCE_PATTERNS_def REFERENCE_PATTERNS_def any_in_def lower_def lower_char_def cell_str_def
  strip_def is_space_def

lemmas validator_defs = validate_statement_def validate_opening_closing_def opening_closing_body_def
  validate_transaction_balances_def validate_totals_def check_total_def

lemma iso_date_nonempty: "iso_date y m d \<noteq> []"
  by (simp add: iso_date_def)

text \<open>Both date texts of the scenario parse, whatever \<open>to_datetime\<close> makes of them.\<close>

lemma scenario_dates:
  "\<exists>d1 d2. parse_date L (CStr ''01-01-2024'') = Some d1 \<and> parse_date L (CStr ''02-01-2024'') = Some d2
           \<and> d1 \<noteq> [] \<and> d2 \<noteq> []"
proof -
  have 1: "parse_date L (CStr ''01-01-2024'')
        = Some (case to_datetime L ''01-01-2024'' of None \<Rightarrow> iso_date 2024 1 1
                | Some (y, m, d) \<Rightarrow> iso_date y m d)"
    by (simp add: date_defs split: option.split)
  have 2: "parse_date L (CStr ''02-01-2024'')
        = Some (case to_datetime L ''02-01-2024'' of None \<Rightarrow> iso_date 2024 1 2
                | Some (y, m, d) \<Rightarrow> iso_date y m d)"
    by (simp add: date_defs split: option.split)
  show ?thesis unfolding 1 2
    by (auto simp: iso_date_nonempty split: option.split)
qed

lemma scenario_structure: "identify_structure L scenario_grid = Inr (0, scenario_columns)"
  by (simp add: scenario_grid_def scenario_columns_def structure_defs eval_nat_numeral)

lemma scenario_transactions:
  assumes "parse_date L (CStr ''01-01-2024'') = Some d1" "parse_date L (CStr ''02-01-2024'') = Some d2"
  shows "extract_transactions L (drop (Suc 0) scenario_grid) scenario_columns =
    Inr ([\<lparr>date = d1, description = ''Salary'', debit = 0, credit = 5000, balance = 15000,
            transaction_type = ''credit'', reference_number = None\<rparr>,
          \<lparr>date = d2, description = ''ATM'', debit = 2000, credit = 0, balance = 9000,
            transaction_type = ''debit'', reference_number = None\<rparr>], zero_tally)"
  using assms
  by (simp add: extract_transactions_def row_defs emit_def count_skip_def scenario_grid_def
        scenario_columns_def parse_amount_def cell_str_def strip_def is_space_def)

lemma scenario_conversion:
  assumes "parse_date L (CStr ''01-01-2024'') = Some d1" "parse_date L (CStr ''02-01-2024'') = Some d2"
    "d1 \<noteq> []" "d2 \<noteq> []"
  shows "convert L scenario_grid =
    Inr \<lparr>meta = empty_metadata,
         totals = \<lparr>statement_period_from = Some d1, statement_period_to = Some d2,
                    opening_balance = 10000, closing_balance = 9000,
                    total_credits = 5000, total_debits = 2000\<rparr>,
         rows = [\<lparr>date = d1, description = ''Salary'', debit = 0, credit = 5000, balance = 15000,
                   transaction_type = ''credit'', reference_number = None\<rparr>,
                 \<lparr>date = d2, description = ''ATM'', debit = 2000, credit = 0, balance = 9000,
                   transaction_type = ''debit'', reference_number = None\<rparr>],
         number_of_transactions = 2, skipped = zero_tally\<rparr>"
  using assms(3,4)
  by (simp add: convert_def scenario_structure scenario_transactions[OF assms(1,2)] bind_exn_def
        extract_metadata_def calculate_summary_def round2_def Let_def)

lemma scenario_converts: "\<exists>x. convert L scenario_grid = Inr x"
  using scenario_dates[of L] scenario_conversion[of L] by blast

lemma scenario_validation:
  assumes "convert L scenario_grid = Inr x"
  shows "map_sum id (\<lambda>r. map (\<lambda>e. (brief e, transaction_index e)) (errors r))
           (validate_transaction_balances (1 / 100) (statement_of x) (new_result ''balance_validator'' []))
         = Inr [((BALANCE_MISMATCH, Some ''transactions[1].balance'', Some 13000, Some 9000),
                 Some (PNum 1))]"
    and "map brief (errors (validate_opening_closing (1 / 100) (statement_of x)
                              (new_result ''balance_validator'' [])))
         = [(BALANCE_MISMATCH, Some ''closing_balance'', Some 13000, Some 9000)]"
    and "map_sum id (\<lambda>r. map brief (errors r)) (validate_statement (1 / 100) (statement_of x))
         = Inr [(BALANCE_MISMATCH, Some ''closing_balance'', Some 13000, Some 9000),
                (BALANCE_MISMATCH, Some ''transactions[1].balance'', Some 13000, Some 9000)]"
proof -
  obtain d1 d2 where d: "parse_date L (CStr ''01-01-2024'') = Some d1"
    "parse_date L (CStr ''02-01-2024'') = Some d2" "d1 \<noteq> []" "d2 \<noteq> []"
    using scenario_dates by blast
  note x = assms[unfolded scenario_conversion[OF d], simplified, symmetric]
  show "map_sum id (\<lambda>r. map (\<lambda>e. (brief e, transaction_index e)) (errors r))
           (validate_transaction_balances (1 / 100) (statement_of x) (new_result ''balance_validator'' []))
         = Inr [((BALANCE_MISMATCH, Some ''transactions[1].balance'', Some 13000, Some 9000),
                 Some (PNum 1))]"
    by (simp add: x statement_of_def as_dict_def validator_defs progression_defs decimal_defs
          result_defs brief_def transaction_index_def opt_str_def)
  show "map brief (errors (validate_opening_closing (1 / 100) (statement_of x)
                              (new_result ''balance_validator'' [])))
         = [(BALANCE_MISMATCH, Some ''closing_balance'', Some 13000, Some 9000)]"
    by (simp add: x statement_of_def as_dict_def validator_defs progression_defs decimal_defs
          result_defs brief_def opt_str_def)
  show "map_sum id (\<lambda>r. map brief (errors r)) (validate_statement (1 / 100) (statement_of x))
         = Inr [(BALANCE_MISMATCH, Some ''closing_balance'', Some 13000, Some 9000),
                (BALANCE_MISMATCH, Some ''transactions[1].balance'', Some 13000, Some 9000)]"
    by (simp add: x statement_of_def as_dict_def validator_defs progression_defs decimal_defs
          result_defs brief_def opt_str_def Let_def)
qed

text \<open>
  C3, as the code has it. On the scenario grid, with the tolerance 0.01, extraction
  followed by the balance validator gives exactly one progression error, on row index 1
  (expected 13000, stated 9000), and the opening and closing reconciliation reports one
  error as well: the summary takes the closing balance from the last row, 9000, while
  opening plus credits less debits is 13000. The totals check adds nothing.
\<close>

theorem scenario_one_progression_error_and_closing_mismatch:
  "\<exists>x. convert L scenario_grid = Inr x
     \<and> map_sum id (\<lambda>r. map (\<lambda>e. (brief e, transaction_index e)) (errors r))
         (validate_transaction_balances (1 / 100) (statement_of x) (new_result ''balance_validator'' []))
       = Inr [((BALANCE_MISMATCH, Some ''transactions[1].balance'', Some 13000, Some 9000),
               Some (PNum 1))]
     \<and> map brief (errors (validate_opening_closing (1 / 100) (statement_of x)
                            (new_result ''balance_validator'' [])))
       = [(BALANCE_MISMATCH, Some ''closing_balance'', Some 13000, Some 9000)]
     \<and> map_sum id (\<lambda>r. map brief (errors r)) (validate_statement (1 / 100) (statement_of x))
       = Inr [(BALANCE_MISMATCH, Some ''closing_balance'', Some 13000, Some 9000),
              (BALANCE_MISMATCH, Some ''transactions[1].balance'', Some 13000, Some 9000)]"
  using scenario_converts[of L] scenario_validation[of L] by blast

text \<open>
  C3, as the claim states it: the reconciliation check reports no error on the scenario.
  It reports the closing balance mismatch.
\<close>

theorem scenario_reconciliation_reports_error:
  "map_sum id (\<lambda>x. map brief (errors (validate_opening_closing (1 / 100) (statement_of x)
                                          (new_result ''balance_validator'' []))))
     (convert sample_lib scenario_grid)
   = Inr [(BALANCE_MISMATCH, Some ''closing_balance'', Some 13000, Some 9000)]"
proof -
  obtain x where x: "convert sample_lib scenario_grid = Inr x"
    using scenario_converts by blast
  show ?thesis by (simp add: x scenario_validation(2)[OF x])
qed

theorem transaction_type_iff_credit_positive_witness:
  "(case convert sample_lib scenario_grid of
      Inr x \<Rightarrow> map credit (rows x) = [5000, 0]
               \<and> map transaction_type (rows x) = [''credit'', ''debit'']
               \<and> list_all (\<lambda>t. (transaction_type t = ''credit'' \<longleftrightarrow> credit t > 0)
                               \<and> (transaction_type t = ''debit'' \<longleftrightarrow> \<not> credit t > 0)) (rows x)
    | Inl e \<Rightarrow> False)"
proof -
  obtain d1 d2 where d: "parse_date sample_lib (CStr ''01-01-2024'') = Some d1"
    "parse_date sample_lib (CStr ''02-01-2024'') = Some d2" "d1 \<noteq> []" "d2 \<noteq> []"
    using scenario_dates by blast
  note c = scenario_conversion[OF d]
  from transaction_type_iff_credit_positive[OF c] show ?thesis
    by (simp add: c)
qed

section \<open>Rows without a date column\<close>

lemma parse_date_CNull: "parse_date L CNull = None"
  by (simp add: parse_date_def)

lemma no_date_row_Emitted:
  assumes "cm ''date'' = None" "extract_row L cm r = Inr (Emitted tx)"
  shows "r \<noteq> [] \<and> parse_date L (r ! 0) = Some (date tx) \<and> first_column_date L r = Some (date tx)"
proof -
  from extract_row_Emitted(5)[OF assms(2)] assms(1)
  obtain dv where "iloc r 0 = Inr dv" "parse_date L dv = Some (date tx)" by auto
  then show ?thesis
    by (cases r) (auto simp: iloc_def first_column_date_def split: if_splits)
qed

lemma no_date_row_skipped:
  assumes "cm ''date'' = None" "first_column_date L r = None"
  shows "extract_row L cm r = Inr EmptyRow \<or> extract_row L cm r = Inr NoDate
         \<or> extract_row L cm r = Inr ParseFail"
  using assms
  by (cases r) (auto simp: extract_row_def first_column_date_def iloc_def bind_exn_def)

lemma no_date_row_outcome:
  assumes "cm ''date'' = None" "extract_row L cm r = Inr out"
  shows "first_column_date L r = (case out of Emitted tx \<Rightarrow> Some (date tx) | _ \<Rightarrow> None)"
proof (cases out)
  case (Emitted tx)
  with no_date_row_Emitted[of cm L r, OF assms(1)] assms(2) show ?thesis by simp
next
  case EmptyRow
  with assms show ?thesis
    by (cases r) (auto simp: extract_row_def first_column_date_def iloc_def bind_exn_def isna_def
          parse_date_CNull split: if_splits option.splits sum.splits)
next
  case NoDate
  with assms show ?thesis
    by (cases r) (auto simp: extract_row_def first_column_date_def iloc_def bind_exn_def isna_def
          parse_date_CNull split: if_splits option.splits sum.splits)
next
  case ParseFail
  with assms show ?thesis
    by (cases r) (auto simp: extract_row_def first_column_date_def iloc_def bind_exn_def isna_def
          parse_date_CNull split: if_splits option.splits sum.splits)
qed

lemma no_date_loop:
  assumes "cm ''date'' = None" "extract_loop L cm rs st = Inr (txs, sk)"
  shows "map date txs = map date (fst st) @ List.map_filter (first_column_date L) rs
       \<and> length txs + skipped_count sk = length (fst st) + skipped_count (snd st) + length rs
       \<and> (skipped_count (snd st) = empty_row (snd st) + no_date (snd st) + parse_fail (snd st)
            \<longrightarrow> skipped_count sk = empty_row sk + no_date sk + parse_fail sk)"
  using assms(2)
proof (induction rs arbitrary: st)
  case Nil
  then show ?case by (simp add: List.map_filter_simps)
next
  case (Cons r rs)
  from Cons.prems obtain out where out: "extract_row L cm r = Inr out"
    and rest: "extract_loop L cm rs (emit out (fst st), count_skip out (snd st)) = Inr (txs, sk)"
    by (auto simp: bind_exn_def split: sum.splits)
  note fc = no_date_row_outcome[of cm L r out, OF assms(1) out]
  from Cons.IH[OF rest] fc show ?case
    by (cases out) (auto simp: emit_def count_skip_def List.map_filter_simps)
qed

text \<open>
  C9. When the column mapping has no date role, the extractor reads the date from
  column 0. A row is emitted only if it has a first cell that parses as a date, and that
  date is the transaction's; a row whose first cell is missing, empty or unparsable is
  skipped under one of the three reasons, without an exception. Over a frame, the dates of
  the transactions are the dates of the first cells that parse, in order, and every other
  row is counted in the tally.
\<close>

theorem no_date_role_reads_first_column:
  assumes "cm ''date'' = None"
  shows "(\<forall>tx. extract_row L cm r = Inr (Emitted tx)
             \<longrightarrow> r \<noteq> [] \<and> parse_date L (r ! 0) = Some (date tx))
       \<and> (first_column_date L r = None
             \<longrightarrow> extract_row L cm r = Inr EmptyRow \<or> extract_row L cm r = Inr NoDate
                 \<or> extract_row L cm r = Inr ParseFail)
       \<and> (\<forall>txs sk. extract_transactions L df cm = Inr (txs, sk)
             \<longrightarrow> map date txs = List.map_filter (first_column_date L) df
                 \<and> length txs + skipped_count sk = length df
                 \<and> skipped_count sk = empty_row sk + no_date sk + parse_fail sk)"
proof -
  have a: "\<forall>tx. extract_row L cm r = Inr (Emitted tx)
             \<longrightarrow> r \<noteq> [] \<and> parse_date L (r ! 0) = Some (date tx)"
    using no_date_row_Emitted[of cm L r, OF assms] by blast
  have b: "first_column_date L r = None
             \<longrightarrow> extract_row L cm r = Inr EmptyRow \<or> extract_row L cm r = Inr NoDate
                 \<or> extract_row L cm r = Inr ParseFail"
    using no_date_row_skipped[of cm L r, OF assms] by blast
  have c: "map date txs = List.map_filter (first_column_date L) df
           \<and> length txs + skipped_count sk = length df
           \<and> skipped_count sk = empty_row sk + no_date sk + parse_fail sk"
    if "extract_transactions L df cm = Inr (txs, sk)" for txs sk
    using no_date_loop[of cm L df "([], zero_tally)" txs sk, OF assms] that
    by (simp add: extract_transactions_def zero_tally_def)
  from a b c show ?thesis by blast
qed

theorem no_date_role_reads_first_column_witness:
  "(case extract_transactions sample_lib undated_rows credit_only of
      Inr (txs, sk) \<Rightarrow>
        map date txs = [''2024-01-01''] \<and> map credit txs = [5000]
        \<and> List.map_filter (first_column_date sample_lib) undated_rows = [''2024-01-01'']
        \<and> skipped_count sk = 3 \<and> empty_row sk = 1 \<and> no_date sk = 1 \<and> parse_fail sk = 1
    | Inl e \<Rightarrow> False)"
proof -
  have m: "credit_only ''date'' = None"
    by (simp add: credit_only_def)
  have e: "map_sum id (\<lambda>res. (map date (fst res), map credit (fst res), empty_row (snd res),
                               no_date (snd res), parse_fail (snd res)))
             (extract_transactions sample_lib undated_rows credit_only)
           = Inr ([''2024-01-01''], [5000], 1, 1, 1)"
    by (simp add: extract_transactions_def row_defs emit_def count_skip_def zero_tally_def
          undated_rows_def credit_only_def sample_lib_def date_defs parse_amount_def)
  then obtain txs sk where r: "extract_transactions sample_lib undated_rows credit_only = Inr (txs, sk)"
    by (cases "extract_transactions sample_lib undated_rows credit_only") auto
  from e r have v: "map date txs = [''2024-01-01'']" "map credit txs = [5000]"
    "empty_row sk = 1" "no_date sk = 1" "parse_fail sk = 1"
    by simp_all
  from no_date_role_reads_first_column[of credit_only sample_lib "[]" undated_rows, OF m] r
  have "map date txs = List.map_filter (first_column_date sample_lib) undated_rows"
    and "skipped_count sk = empty_row sk + no_date sk + parse_fail sk"
    by blast+
  with v r show ?thesis by simp
qed

section \<open>Bank name\<close>

lemma bank_name_metadata_row:
  "bank_name (metadata_row L md r) = (case bank_in_row L r of Some b \<Rightarrow> Some b | None \<Rightarrow> bank_name md)"
  by (simp add: metadata_row_def bank_in_row_def Let_def split: option.splits)

lemma bank_name_foldl:
  "bank_name (foldl (metadata_row L) md rs) =
     (case rev (List.map_filter (bank_in_row L) rs) of [] \<Rightarrow> bank_name md | b # _ \<Rightarrow> Some b)"
proof (induction rs arbitrary: md)
  case Nil
  then show ?case by (simp add: List.map_filter_simps)
next
  case (Cons r rs)
  show ?case
    by (cases "bank_in_row L r"; cases "rev (List.map_filter (bank_in_row L) rs)")
       (simp_all add: Cons.IH bank_name_metadata_row List.map_filter_simps)
qed

lemma convert_meta:
  assumes "convert L df = Inr x"
  shows "meta x = extract_metadata L df (find_header L 0 df)"
  using assms
  by (auto simp: convert_def identify_structure_def bind_exn_def Let_def
           split: if_splits sum.splits prod.splits)

text \<open>
  C7, as the code has it. The bank name is found by looking for the names of a fixed list
  in the upper-cased text of the rows above the header, and nowhere else: it is the name
  found in the last such row that holds one, and it is null when none of these rows holds
  one, whatever the header row and the transaction rows contain.
\<close>

theorem bank_name_from_rows_above_header:
  assumes "convert L df = Inr x"
  shows "bank_name (meta x) =
           (case rev (List.map_filter (bank_in_row L) (take (find_header L 0 df) df)) of
              [] \<Rightarrow> None | b # _ \<Rightarrow> Some b)"
  by (simp add: convert_meta[OF assms] extract_metadata_def bank_name_foldl empty_metadata_def
        split: list.split)

lemma bank_header_row: "find_header L 0 bank_header_grid = 1"
  by (simp add: bank_header_grid_def structure_defs)

lemma bank_header_structure: "identify_structure L bank_header_grid = Inr (1, scenario_columns)"
  by (simp add: identify_structure_def bank_header_row)
     (simp add: bank_header_grid_def scenario_columns_def structure_defs eval_nat_numeral)

lemma bank_header_transactions:
  "map_sum id (\<lambda>res. map description (fst res))
     (extract_transactions sample_lib (drop (Suc (Suc 0)) bank_header_grid) scenario_columns)
   = Inr [''UPI/salary'']"
  by (simp add: extract_transactions_def row_defs emit_def count_skip_def zero_tally_def
        bank_header_grid_def scenario_columns_def sample_lib_def date_defs amount_defs)

lemma bank_header_above:
  "List.map_filter (bank_in_row L) (take (Suc 0) bank_header_grid) = [''HDFC'']"
  by (simp add: bank_header_grid_def List.map_filter_simps bank_in_row_def row_text_of_def isna_def
        cell_str_def upper_def upper_char_def bank_keywords_def)

theorem bank_name_from_rows_above_header_witness:
  "(case convert sample_lib bank_header_grid of
      Inr x \<Rightarrow> bank_name (meta x) = Some ''HDFC'' \<and> map description (rows x) = [''UPI/salary'']
    | Inl e \<Rightarrow> False)"
proof -
  obtain txs sk where t: "extract_transactions sample_lib (drop (Suc (Suc 0)) bank_header_grid)
                            scenario_columns = Inr (txs, sk)"
    and d: "map description txs = [''UPI/salary'']"
    using bank_header_transactions
    by (cases "extract_transactions sample_lib (drop (Suc (Suc 0)) bank_header_grid) scenario_columns")
       auto
  have "\<exists>x. convert sample_lib bank_header_grid = Inr x \<and> rows x = txs"
    by (simp add: convert_def bank_header_structure bind_exn_def t)
  then obtain x where x: "convert sample_lib bank_header_grid = Inr x" and r: "rows x = txs"
    by blast
  from bank_name_from_rows_above_header[OF x]
  have "bank_name (meta x) = Some ''HDFC''"
    by (simp add: bank_header_row bank_header_above)
  with x r d show ?thesis by simp
qed

lemma narration_header: "find_header L 0 narration_bank_grid = 1"
  by (simp add: narration_bank_grid_def structure_defs)

lemma narration_structure: "identify_structure L narration_bank_grid = Inr (1, scenario_columns)"
  by (simp add: identify_structure_def narration_header)
     (simp add: narration_bank_grid_def scenario_columns_def structure_defs eval_nat_numeral)

lemma narration_metadata: "extract_metadata L narration_bank_grid (Suc 0) = empty_metadata"
  by (simp add: extract_metadata_def narration_bank_grid_def metadata_row_def row_text_of_def
        isna_def cell_str_def upper_def upper_char_def bank_keywords_def at_boundary_def
        is_word_def is_upper_def is_digit_def Let_def)

lemma narration_transactions:
  "map_sum id (\<lambda>res. map description (fst res))
     (extract_transactions sample_lib (drop (Suc (Suc 0)) narration_bank_grid) scenario_columns)
   = Inr [''UPI/HDFC BANK/salary'']"
  by (simp add: extract_transactions_def row_defs emit_def count_skip_def zero_tally_def
        narration_bank_grid_def scenario_columns_def sample_lib_def date_defs amount_defs)

text \<open>
  C7, as the claim states it: a bank name that appears only inside a transaction
  description still populates the bank name. On \<open>narration_bank_grid\<close> the description
  of the only transaction holds \<open>HDFC BANK\<close> and the bank name stays null.
\<close>

theorem narration_bank_name_is_null:
  "map_sum id (\<lambda>x. (bank_name (meta x), map description (rows x)))
     (convert sample_lib narration_bank_grid)
   = Inr (None, [''UPI/HDFC BANK/salary''])"
proof -
  have "convert sample_lib narration_bank_grid =
          bind_exn (extract_transactions sample_lib (drop (Suc (Suc 0)) narration_bank_grid) scenario_columns)
            (\<lambda>(txs, sk). Inr \<lparr>meta = empty_metadata, totals = calculate_summary txs, rows = txs,
                               number_of_transactions = length txs, skipped = sk\<rparr>)"
    by (simp add: convert_def narration_structure narration_metadata bind_exn_def split: sum.splits)
  with narration_transactions show ?thesis
    by (auto simp: bind_exn_def empty_metadata_def split: sum.splits)
qed

end
